theory Spec2Isabelle
  imports Main
begin

section \<open>Strings and bytes\<close>

text \<open>
  A Go \<open>string\<close> and a Go \<open>[]byte\<close> are both sequences of bytes; they are modelled as
  \<^typ>\<open>string\<close>, a list of 8-bit characters. A \<open>nil\<close> byte slice and an empty one
  are both the empty list: the program only ever takes their length.
\<close>

abbreviation LF :: char where "LF \<equiv> CHR 0x0A"
abbreviation CR :: char where "CR \<equiv> CHR 0x0D"

definition HasSuffix :: "string \<Rightarrow> string \<Rightarrow> bool" where
  \<comment> \<open>\<open>strings.HasSuffix\<close>\<close>
  "HasSuffix s suffix =
     (length suffix \<le> length s \<and> drop (length s - length suffix) s = suffix)"

text \<open>
  \<open>strings.TrimSpace\<close> removes leading and trailing runes for which \<open>unicode.IsSpace\<close>
  holds. On the UTF-8 bytes of the string these runes are: the six ASCII characters
  tab, line feed, vertical tab, form feed, carriage return and space; U+0085 and U+00A0
  (two bytes); U+1680, U+2000 to U+200A, U+2028, U+2029, U+202F, U+205F and U+3000
  (three bytes). An invalid byte decodes to the replacement rune, which is no space.
\<close>

definition isSpace1 :: "char \<Rightarrow> bool" where
  "isSpace1 a = (a = CHR 0x09 \<or> a = LF \<or> a = CHR 0x0B \<or> a = CHR 0x0C \<or> a = CR \<or> a = CHR 0x20)"

definition isSpace2 :: "char \<Rightarrow> char \<Rightarrow> bool" where
  "isSpace2 a b = (a = CHR 0xC2 \<and> (b = CHR 0x85 \<or> b = CHR 0xA0))"

definition isSpace3 :: "char \<Rightarrow> char \<Rightarrow> char \<Rightarrow> bool" where
  "isSpace3 a b c =
     ((a = CHR 0xE1 \<and> b = CHR 0x9A \<and> c = CHR 0x80) \<or>
      (a = CHR 0xE2 \<and> b = CHR 0x80 \<and>
         ((0x80 \<le> (of_char c :: nat) \<and> (of_char c :: nat) \<le> 0x8A) \<or>
          c = CHR 0xA8 \<or> c = CHR 0xA9 \<or> c = CHR 0xAF)) \<or>
      (a = CHR 0xE2 \<and> b = CHR 0x81 \<and> c = CHR 0x9F) \<or>
      (a = CHR 0xE3 \<and> b = CHR 0x80 \<and> c = CHR 0x80))"

fun TrimLeftSpace :: "string \<Rightarrow> string" where
  "TrimLeftSpace (a # b # c # s) =
     (if isSpace1 a then TrimLeftSpace (b # c # s)
      else if isSpace2 a b then TrimLeftSpace (c # s)
      else if isSpace3 a b c then TrimLeftSpace s
      else a # b # c # s)"
| "TrimLeftSpace [a, b] =
     (if isSpace1 a then TrimLeftSpace [b]
      else if isSpace2 a b then []
      else [a, b])"
| "TrimLeftSpace [a] = (if isSpace1 a then [] else [a])"
| "TrimLeftSpace [] = []"

text \<open>The same from the right, on the reversed string: the last byte comes first.\<close>

fun trimSpaceRev :: "string \<Rightarrow> string" where
  "trimSpaceRev (c # b # a # s) =
     (if isSpace1 c then trimSpaceRev (b # a # s)
      else if isSpace2 b c then trimSpaceRev (a # s)
      else if isSpace3 a b c then trimSpaceRev s
      else c # b # a # s)"
| "trimSpaceRev [c, b] =
     (if isSpace1 c then trimSpaceRev [b]
      else if isSpace2 b c then []
      else [c, b])"
| "trimSpaceRev [c] = (if isSpace1 c then [] else [c])"
| "trimSpaceRev [] = []"

definition TrimRightSpace :: "string \<Rightarrow> string" where
  "TrimRightSpace s = rev (trimSpaceRev (rev s))"

definition TrimSpace :: "string \<Rightarrow> string" where
  \<comment> \<open>\<open>strings.TrimSpace\<close>\<close>
  "TrimSpace s = TrimRightSpace (TrimLeftSpace s)"

section \<open>Errors\<close>

datatype error =
    ErrNilCommand              \<comment> \<open>\<open>errors.New("remote command cannot be nil")\<close>\<close>
  | errUnsupportedExclude
  | Canceled                   \<comment> \<open>\<open>context.Canceled\<close>\<close>
  | DeadlineExceeded           \<comment> \<open>\<open>context.DeadlineExceeded\<close>\<close>
  | CorruptInputError nat      \<comment> \<open>\<open>base64.CorruptInputError\<close>: the offending input byte\<close>
  | SyntaxError                \<comment> \<open>\<open>*json.SyntaxError\<close>\<close>
  | UnmarshalTypeError         \<comment> \<open>\<open>*json.UnmarshalTypeError\<close>\<close>
  | ErrTooLong                 \<comment> \<open>\<open>bufio.ErrTooLong\<close>\<close>
  | ErrNotStarted              \<comment> \<open>\<open>exec: not started\<close>\<close>
  | ErrWaitAlreadyCalled       \<comment> \<open>\<open>exec: Wait was already called\<close>\<close>
  | ErrProcessDone             \<comment> \<open>\<open>os.ErrProcessDone\<close>\<close>
  | OtherError string          \<comment> \<open>any other error of the host (spawn, file system, pipe)\<close>

section \<open>Base64 (\<open>encoding/base64\<close>, \<open>StdEncoding\<close>)\<close>

text \<open>
  The standard alphabet with \<open>=\<close> padding, as \<open>EncodeToString\<close> and \<open>DecodeString\<close> of
  the standard library work on it. The decoder reads quanta of four digits (\<open>dbuf\<close>),
  skips carriage returns and line feeds, wants the padding complete and nothing but
  newlines after it, and is not strict about the unused bits of the last digit. \<open>si\<close> is
  the index of the next input byte, for the byte an error names.
\<close>

definition encodeStd :: string where
  "encodeStd = ''ABCDEFGHIJKLMNOPQRSTUVWXYZabcdefghijklmnopqrstuvwxyz0123456789+/''"

definition encode :: "nat \<Rightarrow> char" where
  "encode i = encodeStd ! i"

primrec indexByte :: "string \<Rightarrow> char \<Rightarrow> nat option" where
  "indexByte [] c = None"
| "indexByte (x # xs) c = (if x = c then Some 0 else map_option Suc (indexByte xs c))"

definition decodeMap :: "char \<Rightarrow> nat option" where
  \<comment> \<open>the position of a character in the alphabet; \<open>None\<close> is the table's \<open>0xFF\<close>\<close>
  "decodeMap c = indexByte encodeStd c"

fun EncodeToString :: "string \<Rightarrow> string" where
  "EncodeToString (a # b # c # src) =
     (let val = of_char a * 65536 + of_char b * 256 + of_char c :: nat
      in encode (val div 262144 mod 64) # encode (val div 4096 mod 64) #
         encode (val div 64 mod 64) # encode (val mod 64) # EncodeToString src)"
| "EncodeToString [a, b] =
     (let val = of_char a * 65536 + of_char b * 256 :: nat
      in [encode (val div 262144 mod 64), encode (val div 4096 mod 64),
          encode (val div 64 mod 64), CHR ''='']) "
| "EncodeToString [a] =
     (let val = of_char a * 65536 :: nat
      in [encode (val div 262144 mod 64), encode (val div 4096 mod 64),
          CHR ''='', CHR ''=''])"
| "EncodeToString [] = []"

definition quantum :: "nat list \<Rightarrow> string" where
  \<comment> \<open>the three bytes of four 6-bit digits; \<open>dbuf\<close> is padded with zeros\<close>
  "quantum dbuf =
     (let d = dbuf @ replicate (4 - length dbuf) 0;
          val = d ! 0 * 262144 + d ! 1 * 4096 + d ! 2 * 64 + d ! 3
      in [char_of (val div 65536 mod 256), char_of (val div 256 mod 256), char_of (val mod 256)])"

definition isNewline :: "char \<Rightarrow> bool" where
  "isNewline c = (c = LF \<or> c = CR)"

definition trailing :: "string \<Rightarrow> nat \<Rightarrow> nat list \<Rightarrow> string \<Rightarrow> error + string" where
  \<comment> \<open>after the padding of a quantum with \<open>j = length dbuf\<close> digits: only newlines may follow\<close>
  "trailing src si dbuf out =
     (let rest = dropWhile isNewline src;
          si' = si + (length src - length rest)
      in if rest \<noteq> [] then Inl (CorruptInputError si')
         else Inr (out @ take (length dbuf - 1) (quantum dbuf)))"

definition padding :: "string \<Rightarrow> nat \<Rightarrow> nat list \<Rightarrow> string \<Rightarrow> error + string" where
  \<comment> \<open>a padding character has just been read; \<open>si\<close> is the index after it\<close>
  "padding src si dbuf out =
     (if length dbuf < 2 then Inl (CorruptInputError (si - 1))
      else if length dbuf = 2 then
        (let rest = dropWhile isNewline src;
             si' = si + (length src - length rest)
         in case rest of
              [] \<Rightarrow> Inl (CorruptInputError si')
            | c # rest' \<Rightarrow>
                if c \<noteq> CHR ''='' then Inl (CorruptInputError (si' - 1))
                else trailing rest' (si' + 1) dbuf out)
      else trailing src si dbuf out)"

fun decode :: "string \<Rightarrow> nat \<Rightarrow> nat list \<Rightarrow> string \<Rightarrow> error + string" where
  "decode [] si dbuf out =
     (if dbuf = [] then Inr out else Inl (CorruptInputError (si - length dbuf)))"
| "decode (c # src) si dbuf out =
     (case decodeMap c of
        Some v \<Rightarrow>
          if length dbuf = 3 then decode src (si + 1) [] (out @ quantum (dbuf @ [v]))
          else decode src (si + 1) (dbuf @ [v]) out
      | None \<Rightarrow>
          if isNewline c then decode src (si + 1) dbuf out
          else if c \<noteq> CHR ''='' then Inl (CorruptInputError si)
          else padding src (si + 1) dbuf out)"

definition DecodeString :: "string \<Rightarrow> error + string" where
  "DecodeString s = decode s 0 [] []"

definition decodeBase64 :: "string \<Rightarrow> error + string" where
  "decodeBase64 v = (if TrimSpace v = [] then Inr [] else DecodeString v)"

section \<open>Line scanner (\<open>bufio.Scanner\<close>, \<open>ScanLines\<close>)\<close>

text \<open>
  A reader is the finite sequence of bytes its stream delivers together with the error
  that ends the stream (\<open>None\<close> is \<open>io.EOF\<close>). The scanner cuts the bytes at line
  feeds, drops one trailing carriage return of each line, and delivers a final line
  that has no line feed. A line that does not fit the buffer of \<open>maxTokenSize\<close> bytes
  stops the scanner with \<open>ErrTooLong\<close>. \<open>scan\<close> gives the tokens that successive calls
  of \<open>Scan\<close> deliver and the value of \<open>Err\<close> after the last one.
\<close>

type_synonym reader = "string \<times> error option"

definition maxTokenSize :: nat where
  "maxTokenSize = 2 * 1024 * 1024"

fun splitLines :: "string \<Rightarrow> string list" where
  "splitLines [] = []"
| "splitLines (c # data) =
     (if c = LF then [] # splitLines data
      else case splitLines data of [] \<Rightarrow> [[c]] | l # ls \<Rightarrow> (c # l) # ls)"

definition dropCR :: "string \<Rightarrow> string" where
  "dropCR l = (if l \<noteq> [] \<and> last l = CR then butlast l else l)"

fun scan :: "string list \<Rightarrow> error option \<Rightarrow> string list \<times> error option" where
  "scan [] rerr = ([], rerr)"
| "scan (l # ls) rerr =
     (if maxTokenSize \<le> length l then ([], Some ErrTooLong)
      else case scan ls rerr of (ts, e) \<Rightarrow> (dropCR l # ts, e))"

definition Scanner :: "reader \<Rightarrow> string list \<times> error option" where
  "Scanner r = scan (splitLines (fst r)) (snd r)"

section \<open>JSON (\<open>encoding/json\<close>, \<open>Unmarshal\<close> into \<open>streamMessage\<close>)\<close>

text \<open>
  \<open>json.Unmarshal\<close> first checks that the whole text is one JSON value and then stores
  the members of an object into the fields they name. Here the text is cut into tokens
  (\<open>lex\<close>), the tokens are parsed with an explicit stack (\<open>parseTokens\<close>), and the members
  are stored in their order (\<open>setFields\<close>). Keys match the field names \<open>stream\<close>, \<open>data\<close>
  and \<open>code\<close> without regard to case, unknown keys are skipped, \<open>null\<close> leaves a field as it
  is, a value of the wrong type is an \<open>UnmarshalTypeError\<close>. \<open>Code\<close> is a Go \<open>int\<close> of 64
  bits. Of an error only its kind is kept, not its message.
\<close>

abbreviation DQ :: char where "DQ \<equiv> CHR 0x22"
abbreviation BS :: char where "BS \<equiv> CHR 0x5C"

datatype token =
    TLBrace | TRBrace | TLBracket | TRBracket | TColon | TComma
  | TString string    \<comment> \<open>the text between the quotes, escapes not yet resolved\<close>
  | TNumber string
  | TTrue | TFalse | TNull

datatype lexmode =
    LDefault
  | LStr string       \<comment> \<open>inside a string; the text so far, reversed\<close>
  | LEsc string       \<comment> \<open>after a backslash\<close>
  | LHex string nat   \<comment> \<open>inside \<open>\uXXXX\<close>; hexadecimal digits still expected\<close>
  | LNum string       \<comment> \<open>inside a number; the text so far, reversed\<close>
  | LLit string token \<comment> \<open>inside \<open>true\<close>, \<open>false\<close>, \<open>null\<close>; characters still expected\<close>

definition isJsonSpace :: "char \<Rightarrow> bool" where
  "isJsonSpace c = (c = CHR 0x20 \<or> c = CHR 0x09 \<or> c = CR \<or> c = LF)"

definition isDigit :: "char \<Rightarrow> bool" where
  "isDigit c = (48 \<le> (of_char c :: nat) \<and> (of_char c :: nat) \<le> 57)"

definition isHex :: "char \<Rightarrow> bool" where
  "isHex c = (isDigit c \<or> (65 \<le> (of_char c :: nat) \<and> (of_char c :: nat) \<le> 70) \<or>
              (97 \<le> (of_char c :: nat) \<and> (of_char c :: nat) \<le> 102))"

definition numChar :: "char \<Rightarrow> bool" where
  "numChar c = (isDigit c \<or> c = CHR ''-'' \<or> c = CHR ''+'' \<or> c = CHR ''.'' \<or>
                c = CHR ''e'' \<or> c = CHR ''E'')"

definition validNumber :: "string \<Rightarrow> bool" where
  \<comment> \<open>\<open>-?(0|[1-9][0-9]*)(\.[0-9]+)?([eE][+-]?[0-9]+)?\<close>\<close>
  "validNumber s =
     (let s1 = (if take 1 s = ''-'' then drop 1 s else s);
          ip = takeWhile isDigit s1;
          r1 = dropWhile isDigit s1;
          fp = (if take 1 r1 = ''.'' then takeWhile isDigit (drop 1 r1) else ''0'');
          r2 = (if take 1 r1 = ''.'' then dropWhile isDigit (drop 1 r1) else r1);
          r3 = (if take 1 r2 = ''e'' \<or> take 1 r2 = ''E'' then drop 1 r2 else r2);
          ep = (if take 1 r3 = ''+'' \<or> take 1 r3 = ''-'' then drop 1 r3 else r3)
      in ip \<noteq> [] \<and> (if take 1 ip = ''0'' then length ip = 1 else True) \<and> fp \<noteq> [] \<and>
         (r2 = [] \<or> (r3 \<noteq> r2 \<and> ep \<noteq> [] \<and> list_all isDigit ep)))"

definition start :: "char \<Rightarrow> (token option \<times> lexmode) option" where
  \<comment> \<open>a character at the beginning of a token\<close>
  "start c =
     (if isJsonSpace c then Some (None, LDefault)
      else if c = CHR 0x7B then Some (Some TLBrace, LDefault)
      else if c = CHR 0x7D then Some (Some TRBrace, LDefault)
      else if c = CHR 0x5B then Some (Some TLBracket, LDefault)
      else if c = CHR 0x5D then Some (Some TRBracket, LDefault)
      else if c = CHR '':'' then Some (Some TColon, LDefault)
      else if c = CHR '','' then Some (Some TComma, LDefault)
      else if c = DQ then Some (None, LStr [])
      else if c = CHR ''-'' \<or> isDigit c then Some (None, LNum [c])
      else if c = CHR ''t'' then Some (None, LLit ''rue'' TTrue)
      else if c = CHR ''f'' then Some (None, LLit ''alse'' TFalse)
      else if c = CHR ''n'' then Some (None, LLit ''ull'' TNull)
      else None)"

definition emit :: "token option \<Rightarrow> token list option \<Rightarrow> token list option" where
  "emit t r = (case t of None \<Rightarrow> r | Some x \<Rightarrow> map_option ((#) x) r)"

fun lex :: "lexmode \<Rightarrow> string \<Rightarrow> token list option" where
  "lex m [] =
     (case m of
        LDefault \<Rightarrow> Some []
      | LNum acc \<Rightarrow> if validNumber (rev acc) then Some [TNumber (rev acc)] else None
      | _ \<Rightarrow> None)"
| "lex m (c # s) =
     (case m of
        LDefault \<Rightarrow>
          (case start c of None \<Rightarrow> None | Some (t, m') \<Rightarrow> emit t (lex m' s))
      | LStr acc \<Rightarrow>
          if c = DQ then emit (Some (TString (rev acc))) (lex LDefault s)
          else if c = BS then lex (LEsc (c # acc)) s
          else if (of_char c :: nat) < 0x20 then None
          else lex (LStr (c # acc)) s
      | LEsc acc \<Rightarrow>
          if c = DQ \<or> c = BS \<or> c = CHR ''/'' \<or> c = CHR ''b'' \<or> c = CHR ''f'' \<or>
             c = CHR ''n'' \<or> c = CHR ''r'' \<or> c = CHR ''t''
          then lex (LStr (c # acc)) s
          else if c = CHR ''u'' then lex (LHex (c # acc) 4) s
          else None
      | LHex acc n \<Rightarrow>
          if isHex c then (if n \<le> 1 then lex (LStr (c # acc)) s else lex (LHex (c # acc) (n - 1)) s)
          else None
      | LNum acc \<Rightarrow>
          if numChar c then lex (LNum (c # acc)) s
          else if validNumber (rev acc) then
            (case start c of
               None \<Rightarrow> None
             | Some (t, m') \<Rightarrow> emit (Some (TNumber (rev acc))) (emit t (lex m' s)))
          else None
      | LLit w t \<Rightarrow>
          (case w of
             [] \<Rightarrow> None
           | x # w' \<Rightarrow>
               if c \<noteq> x then None
               else if w' = [] then emit (Some t) (lex LDefault s)
               else lex (LLit w' t) s))"

text \<open>Resolving the escapes of a string (\<open>unquote\<close>): invalid UTF-8 and unpaired surrogates
  become the replacement rune U+FFFD.\<close>

definition escChar :: "char \<Rightarrow> char" where
  "escChar e =
     (if e = CHR ''b'' then CHR 0x08 else if e = CHR ''f'' then CHR 0x0C
      else if e = CHR ''n'' then LF else if e = CHR ''r'' then CR
      else if e = CHR ''t'' then CHR 0x09 else e)"

definition hexVal :: "char \<Rightarrow> nat" where
  "hexVal c =
     (if isDigit c then of_char c - 48
      else if (of_char c :: nat) < 97 then of_char c - 55 else of_char c - 87)"

definition getu4 :: "string \<Rightarrow> nat" where
  "getu4 h = foldl (\<lambda>n c. n * 16 + hexVal c) 0 (take 4 h)"

definition isU4 :: "string \<Rightarrow> bool" where
  \<comment> \<open>the text starts with \<open>\u\<close> and four hexadecimal digits\<close>
  "isU4 s = (take 2 s = [BS, CHR ''u''] \<and> length (take 4 (drop 2 s)) = 4 \<and>
             list_all isHex (take 4 (drop 2 s)))"

definition EncodeRune :: "nat \<Rightarrow> string" where
  \<comment> \<open>\<open>utf8.EncodeRune\<close>\<close>
  "EncodeRune r =
     (if r < 0x80 then [char_of r]
      else if r < 0x800 then [char_of (0xC0 + r div 64), char_of (0x80 + r mod 64)]
      else if (0xD800 \<le> r \<and> r \<le> 0xDFFF) \<or> 0x10FFFF < r then [CHR 0xEF, CHR 0xBF, CHR 0xBD]
      else if r < 0x10000 then
        [char_of (0xE0 + r div 4096), char_of (0x80 + r div 64 mod 64), char_of (0x80 + r mod 64)]
      else [char_of (0xF0 + r div 262144), char_of (0x80 + r div 4096 mod 64),
            char_of (0x80 + r div 64 mod 64), char_of (0x80 + r mod 64)])"

definition cont :: "nat \<Rightarrow> bool" where
  "cont b = (0x80 \<le> b \<and> b \<le> 0xBF)"

definition runeLen :: "string \<Rightarrow> nat" where
  \<comment> \<open>the width of the valid UTF-8 encoding at the front of the text, 0 when there is none\<close>
  "runeLen s =
     (case map of_char s of
        [] \<Rightarrow> 0
      | a # r \<Rightarrow>
          if a < 0x80 then 1
          else if a < 0xC2 then 0
          else if a < 0xE0 then (case r of b # _ \<Rightarrow> if cont b then 2 else 0 | _ \<Rightarrow> 0)
          else if a < 0xF0 then
            (case r of
               b # c # _ \<Rightarrow>
                 if (if a = 0xE0 then 0xA0 else 0x80) \<le> b \<and>
                    b \<le> (if a = 0xED then 0x9F else 0xBF) \<and> cont c then 3 else 0
             | _ \<Rightarrow> 0)
          else if a < 0xF5 then
            (case r of
               b # c # d # _ \<Rightarrow>
                 if (if a = 0xF0 then 0x90 else 0x80) \<le> b \<and>
                    b \<le> (if a = 0xF4 then 0x8F else 0xBF) \<and> cont c \<and> cont d then 4 else 0
             | _ \<Rightarrow> 0)
          else 0)"

fun unquote :: "string \<Rightarrow> string" where
  "unquote [] = []"
| "unquote (c # s) =
     (if c = BS then
        (case s of
           [] \<Rightarrow> []
         | e # s1 \<Rightarrow>
             if e = CHR ''u'' then
               (if 0xD800 \<le> getu4 s1 \<and> getu4 s1 \<le> 0xDFFF then
                  (if getu4 s1 < 0xDC00 \<and> isU4 (drop 4 s1) \<and>
                      0xDC00 \<le> getu4 (drop 6 s1) \<and> getu4 (drop 6 s1) \<le> 0xDFFF
                   then EncodeRune ((getu4 s1 - 0xD800) * 1024 + (getu4 (drop 6 s1) - 0xDC00) + 0x10000)
                          @ unquote (drop 10 s1)
                   else EncodeRune 0xFFFD @ unquote (drop 4 s1))
                else EncodeRune (getu4 s1) @ unquote (drop 4 s1))
             else escChar e # unquote s1)
      else if (of_char c :: nat) < 0x80 then c # unquote s
      else if runeLen (c # s) = 0 then EncodeRune 0xFFFD @ unquote s
      else c # take (runeLen (c # s) - 1) s @ unquote (drop (runeLen (c # s) - 1) s))"

datatype json =
    JNull | JBool bool | JNumber string | JString string
  | JArray "json list" | JObject "(string \<times> json) list"

datatype frame =
    FArray "json list"                    \<comment> \<open>the elements so far, reversed\<close>
  | FObject "(string \<times> json) list" string  \<comment> \<open>the members so far, reversed, and the pending key\<close>

datatype pmode =
    BeginValue | BeginValueOrEmpty | BeginStringOrEmpty | BeginString
  | ObjectKey string | EndValue | EndTop json

definition maxNestingDepth :: nat where
  "maxNestingDepth = 10000"

definition deliver :: "json \<Rightarrow> frame list \<Rightarrow> pmode \<times> frame list" where
  "deliver v stack =
     (case stack of
        [] \<Rightarrow> (EndTop v, [])
      | FArray xs # st \<Rightarrow> (EndValue, FArray (v # xs) # st)
      | FObject ms k # st \<Rightarrow> (EndValue, FObject ((k, v) # ms) [] # st))"

definition beginValue :: "frame list \<Rightarrow> token \<Rightarrow> (pmode \<times> frame list) option" where
  "beginValue stack t =
     (case t of
        TLBrace \<Rightarrow>
          if maxNestingDepth \<le> length stack then None
          else Some (BeginStringOrEmpty, FObject [] [] # stack)
      | TLBracket \<Rightarrow>
          if maxNestingDepth \<le> length stack then None
          else Some (BeginValueOrEmpty, FArray [] # stack)
      | TString raw \<Rightarrow> Some (deliver (JString (unquote raw)) stack)
      | TNumber lit \<Rightarrow> Some (deliver (JNumber lit) stack)
      | TTrue \<Rightarrow> Some (deliver (JBool True) stack)
      | TFalse \<Rightarrow> Some (deliver (JBool False) stack)
      | TNull \<Rightarrow> Some (deliver JNull stack)
      | _ \<Rightarrow> None)"

definition beginKey :: "frame list \<Rightarrow> token \<Rightarrow> (pmode \<times> frame list) option" where
  "beginKey stack t = (case t of TString raw \<Rightarrow> Some (ObjectKey (unquote raw), stack) | _ \<Rightarrow> None)"

definition closeArray :: "frame list \<Rightarrow> (pmode \<times> frame list) option" where
  "closeArray stack =
     (case stack of FArray xs # st \<Rightarrow> Some (deliver (JArray (rev xs)) st) | _ \<Rightarrow> None)"

definition closeObject :: "frame list \<Rightarrow> (pmode \<times> frame list) option" where
  "closeObject stack =
     (case stack of FObject ms k # st \<Rightarrow> Some (deliver (JObject (rev ms)) st) | _ \<Rightarrow> None)"

definition step :: "pmode \<Rightarrow> frame list \<Rightarrow> token \<Rightarrow> (pmode \<times> frame list) option" where
  "step m stack t =
     (case m of
        BeginValue \<Rightarrow> beginValue stack t
      | BeginValueOrEmpty \<Rightarrow> if t = TRBracket then closeArray stack else beginValue stack t
      | BeginStringOrEmpty \<Rightarrow> if t = TRBrace then closeObject stack else beginKey stack t
      | BeginString \<Rightarrow> beginKey stack t
      | ObjectKey k \<Rightarrow>
          (case stack of
             FObject ms _ # st \<Rightarrow> if t = TColon then Some (BeginValue, FObject ms k # st) else None
           | _ \<Rightarrow> None)
      | EndValue \<Rightarrow>
          (case stack of
             FArray xs # st \<Rightarrow>
               if t = TComma then Some (BeginValue, stack)
               else if t = TRBracket then closeArray stack else None
           | FObject ms k # st \<Rightarrow>
               if t = TComma then Some (BeginString, stack)
               else if t = TRBrace then closeObject stack else None
           | [] \<Rightarrow> None)
      | EndTop v \<Rightarrow> None)"

fun parseTokens :: "pmode \<Rightarrow> frame list \<Rightarrow> token list \<Rightarrow> json option" where
  "parseTokens m stack [] = (case m of EndTop v \<Rightarrow> Some v | _ \<Rightarrow> None)"
| "parseTokens m stack (t # ts) =
     (case step m stack t of None \<Rightarrow> None | Some (m', stack') \<Rightarrow> parseTokens m' stack' ts)"

definition parseJSON :: "string \<Rightarrow> json option" where
  \<comment> \<open>\<open>None\<close> when the text is not one valid JSON value\<close>
  "parseJSON s = (case lex LDefault s of None \<Rightarrow> None | Some ts \<Rightarrow> parseTokens BeginValue [] ts)"

record streamMessage =
  Stream :: string
  Data :: string
  Code :: int

fun foldName :: "string \<Rightarrow> string" where
  \<comment> \<open>keys match field names without regard to case; U+017F folds to \<open>S\<close>, U+212A to \<open>K\<close>\<close>
  "foldName [] = []"
| "foldName (c # s) =
     (if 97 \<le> (of_char c :: nat) \<and> (of_char c :: nat) \<le> 122 then char_of (of_char c - 32 :: nat) # foldName s
      else if c = CHR 0xC5 \<and> take 1 s = [CHR 0xBF] then CHR ''S'' # foldName (drop 1 s)
      else if c = CHR 0xE2 \<and> take 2 s = [CHR 0x84, CHR 0xAA] then CHR ''K'' # foldName (drop 2 s)
      else c # foldName s)"

definition digitsVal :: "string \<Rightarrow> nat" where
  "digitsVal ds = foldl (\<lambda>n c. n * 10 + (of_char c - 48)) 0 ds"

definition ParseInt :: "string \<Rightarrow> int option" where
  \<comment> \<open>\<open>strconv.ParseInt(s, 10, 64)\<close> on a JSON number: a fraction, an exponent or a value
      outside the 64-bit range is an error\<close>
  "ParseInt lit =
     (let neg = (take 1 lit = ''-'');
          ds = (if neg then drop 1 lit else lit);
          n = (if neg then - int (digitsVal ds) else int (digitsVal ds))
      in if ds \<noteq> [] \<and> list_all isDigit ds \<and> - (2 ^ 63) \<le> n \<and> n < 2 ^ 63 then Some n else None)"

definition setField :: "streamMessage \<Rightarrow> string \<Rightarrow> json \<Rightarrow> streamMessage option" where
  \<comment> \<open>one member of the object; \<open>None\<close> is an \<open>UnmarshalTypeError\<close>\<close>
  "setField msg key v =
     (if foldName key = ''STREAM'' then
        (case v of JString x \<Rightarrow> Some (msg\<lparr>Stream := x\<rparr>) | JNull \<Rightarrow> Some msg | _ \<Rightarrow> None)
      else if foldName key = ''DATA'' then
        (case v of JString x \<Rightarrow> Some (msg\<lparr>Data := x\<rparr>) | JNull \<Rightarrow> Some msg | _ \<Rightarrow> None)
      else if foldName key = ''CODE'' then
        (case v of
           JNumber lit \<Rightarrow> (case ParseInt lit of Some n \<Rightarrow> Some (msg\<lparr>Code := n\<rparr>) | None \<Rightarrow> None)
         | JNull \<Rightarrow> Some msg
         | _ \<Rightarrow> None)
      else Some msg)"

fun setFields :: "streamMessage \<Rightarrow> (string \<times> json) list \<Rightarrow> error + streamMessage" where
  "setFields msg [] = Inr msg"
| "setFields msg (kv # ms) =
     (case setField msg (fst kv) (snd kv) of
        None \<Rightarrow> Inl UnmarshalTypeError
      | Some msg' \<Rightarrow> setFields msg' ms)"

definition Unmarshal :: "string \<Rightarrow> error + streamMessage" where
  \<comment> \<open>\<open>json.Unmarshal([]byte(line), &msg)\<close> for a fresh \<open>msg\<close>\<close>
  "Unmarshal line =
     (case parseJSON line of
        None \<Rightarrow> Inl SyntaxError
      | Some JNull \<Rightarrow> Inr \<lparr>Stream = [], Data = [], Code = 0\<rparr>
      | Some (JObject ms) \<Rightarrow> setFields \<lparr>Stream = [], Data = [], Code = 0\<rparr> ms
      | Some _ \<Rightarrow> Inl UnmarshalTypeError)"

section \<open>Remote commands\<close>

text \<open>
  \<open>packersdk.RemoteCmd\<close>: the command text, the two sinks (\<open>None\<close> is a \<open>nil\<close> writer)
  and the exit status. A sink is the sequence of what was written to it: byte strings
  (\<open>Write\<close>) and formatted diagnostics (\<open>Fprintf\<close> with its format and the error printed
  by it). \<open>exited\<close> lists the statuses of the calls of \<open>SetExited\<close>, in order: the
  exit-status future is resolved exactly once when exactly one status was added.
\<close>

datatype event = Write string | Fprintf string error

record RemoteCmd =
  Command :: string
  Stdout :: "event list option"
  Stderr :: "event list option"
  exited :: "int list"

definition SetExited :: "RemoteCmd \<Rightarrow> int \<Rightarrow> RemoteCmd" where
  "SetExited cmd status = cmd\<lparr>exited := exited cmd @ [status]\<rparr>"

definition toStdout :: "RemoteCmd \<Rightarrow> event \<Rightarrow> RemoteCmd" where
  "toStdout cmd e = cmd\<lparr>Stdout := map_option (\<lambda>w. w @ [e]) (Stdout cmd)\<rparr>"

definition toStderr :: "RemoteCmd \<Rightarrow> event \<Rightarrow> RemoteCmd" where
  "toStderr cmd e = cmd\<lparr>Stderr := map_option (\<lambda>w. w @ [e]) (Stderr cmd)\<rparr>"

section \<open>The structured stdout pump\<close>

definition commandFailureStatus :: int where
  "commandFailureStatus = 1"

text \<open>The local variables of \<open>consumeMessages\<close> and the command it works on, with a
  counter of the tokens taken from the scanner.\<close>

record pump =
  cmd :: RemoteCmd
  exitHandled :: bool
  exitCode :: int
  scanned :: nat      \<comment> \<open>how many times \<open>scanner.Scan()\<close> has delivered a token\<close>

datatype flow = Continue pump | Return pump

definition body :: "string \<Rightarrow> pump \<Rightarrow> flow" where
  \<comment> \<open>the body of the loop, for the text of one token\<close>
  "body text p =
     (let line = TrimSpace text in
      if line = [] then Continue p
      else case Unmarshal line of
        Inl err \<Rightarrow>
          Continue (if Stderr (cmd p) \<noteq> None
                    then p\<lparr>cmd := toStderr (cmd p)
                              (Fprintf (''decode stream message: %v'' @ [LF]) err)\<rparr>
                    else p)
      | Inr msg \<Rightarrow>
          if Stream msg = ''stdout'' then
            (if Stdout (cmd p) = None then Continue p
             else case decodeBase64 (Data msg) of
               Inl err \<Rightarrow>
                 Continue (if Stderr (cmd p) \<noteq> None
                           then p\<lparr>cmd := toStderr (cmd p)
                                     (Fprintf (''decode stdout payload: %v'' @ [LF]) err)\<rparr>
                           else p)
             | Inr data \<Rightarrow>
                 Continue (if 0 < length data
                           then p\<lparr>cmd := toStdout (cmd p) (Write data)\<rparr> else p))
          else if Stream msg = ''stderr'' then
            (if Stderr (cmd p) = None then Continue p
             else case decodeBase64 (Data msg) of
               Inl err \<Rightarrow>
                 Continue (p\<lparr>cmd := toStderr (cmd p)
                                    (Fprintf (''decode stderr payload: %v'' @ [LF]) err)\<rparr>)
             | Inr data \<Rightarrow>
                 Continue (if 0 < length data
                           then p\<lparr>cmd := toStderr (cmd p) (Write data)\<rparr> else p))
          else if Stream msg = ''exit'' then
            Return (p\<lparr>exitHandled := True, exitCode := Code msg,
                      cmd := SetExited (cmd p) (Code msg)\<rparr>)
          else
            Continue (if Stderr (cmd p) \<noteq> None
                      then p\<lparr>cmd := toStderr (cmd p)
                                (Write (''unexpected stream message type: '' @ Stream msg @ [LF]))\<rparr>
                      else p))"

fun loop :: "string list \<Rightarrow> pump \<Rightarrow> flow" where
  \<comment> \<open>\<open>for scanner.Scan() { ... }\<close> over the tokens the scanner delivers\<close>
  "loop [] p = Continue p"
| "loop (text # ts) p =
     (case body text (p\<lparr>scanned := scanned p + 1\<rparr>) of
        Continue p' \<Rightarrow> loop ts p'
      | Return p' \<Rightarrow> Return p')"

definition consumeMessages :: "reader option \<Rightarrow> RemoteCmd \<Rightarrow> RemoteCmd" where
  "consumeMessages reader c =
     (case reader of
        None \<Rightarrow> SetExited c commandFailureStatus
      | Some r \<Rightarrow>
          (case loop (fst (Scanner r))
                  \<lparr>cmd = c, exitHandled = False, exitCode = commandFailureStatus, scanned = 0\<rparr> of
             Return p \<Rightarrow> cmd p
           | Continue p \<Rightarrow>
               (let p1 = (case snd (Scanner r) of
                            Some err \<Rightarrow>
                              if Stderr (cmd p) \<noteq> None
                              then p\<lparr>cmd := toStderr (cmd p)
                                        (Fprintf (''stream read error: %v'' @ [LF]) err)\<rparr>
                              else p
                          | None \<Rightarrow> p)
                in if \<not> exitHandled p1 then SetExited (cmd p1) (exitCode p1) else cmd p1)))"

text \<open>
  An exit envelope is a token that the loop decodes to a message of stream \<open>exit\<close>;
  \<open>exitEnvelope\<close> gives its code.
\<close>

definition exitEnvelope :: "string \<Rightarrow> int option" where
  "exitEnvelope text =
     (if TrimSpace text = [] then None
      else case Unmarshal (TrimSpace text) of
        Inl err \<Rightarrow> None
      | Inr msg \<Rightarrow> if Stream msg = ''exit'' then Some (Code msg) else None)"

section \<open>The command session\<close>

datatype script =
    executeCommandScript | uploadFileScript | uploadDirectoryScript
  | downloadFileScript | downloadDirectoryScript

text \<open>
  A \<open>streamProcess\<close> as \<open>Start\<close> sees it: the two streams (\<open>None\<close> is a \<open>nil\<close> stream).
  A \<open>runner\<close> is what its methods answer; every call is recorded in the \<open>host\<close>, as the
  recording runner of the tests does.
\<close>

record streamProcess =
  procStdout :: "reader option"
  procStderr :: "reader option"

record runner =
  runner_Run :: "script \<Rightarrow> string list \<Rightarrow> error option"
  runner_Stream :: "script \<Rightarrow> string list \<Rightarrow> error + streamProcess"

record Config =
  VMName :: string
  Username :: string
  Password :: string

record Communicator =
  vmName :: string
  config :: Config
  runner :: runner

datatype fileOp = MkdirAll string

record host =
  runCalls :: "(script \<times> string list) list"
  streamCalls :: "(script \<times> string list) list"
  fileOps :: "fileOp list"           \<comment> \<open>what was done to the file system\<close>
  waits :: nat                       \<comment> \<open>calls of \<open>process.Wait\<close>\<close>
  kills :: nat                       \<comment> \<open>calls of \<open>process.Kill\<close>\<close>
  rawStderr :: "event list"          \<comment> \<open>what the raw stderr pump wrote to \<open>cmd.Stderr\<close>\<close>

text \<open>
  The context: \<open>ctxErr\<close> is \<open>ctx.Err()\<close> at the moment \<open>Start\<close> polls \<open>ctx.Done()\<close>
  (\<open>None\<close> while the context is live), \<open>doneLater\<close> says whether \<open>ctx.Done()\<close> fires
  before the completion watcher closes \<open>done\<close>.
\<close>

datatype ctxState = Live | IsCanceled | PastDeadline

record ctx =
  state :: ctxState
  doneLater :: bool

definition ctxErr :: "ctx \<Rightarrow> error option" where
  "ctxErr c = (case state c of Live \<Rightarrow> None | IsCanceled \<Rightarrow> Some Canceled
               | PastDeadline \<Rightarrow> Some DeadlineExceeded)"

definition rawPump :: "reader option \<Rightarrow> RemoteCmd \<Rightarrow> event list" where
  \<comment> \<open>the fourth task: \<open>io.Copy(target, stderr)\<close>, target \<open>io.Discard\<close> when \<open>cmd.Stderr\<close> is \<open>nil\<close>\<close>
  "rawPump stderr c =
     (case stderr of
        None \<Rightarrow> []
      | Some r \<Rightarrow>
          if Stderr c = None then []
          else (if fst r \<noteq> [] then [Write (fst r)] else []) @
               (case snd r of Some err \<Rightarrow> [Fprintf (''%s'' @ [LF]) err] | None \<Rightarrow> []))"

text \<open>
  \<open>Start\<close> returns its error, the command as the tasks it launched leave it, and the host.
  The four tasks share nothing but the process: the completion watcher calls \<open>Wait\<close>, the
  cancellation watcher calls \<open>Kill\<close> when the context is done first, the structured pump
  is \<open>consumeMessages\<close> and is the only one that touches the exit status, the raw pump
  writes to \<open>cmd.Stderr\<close> in an order relative to the structured pump that nothing fixes:
  its writes are kept apart, in \<open>rawStderr\<close>.
\<close>

definition Start :: "Communicator \<Rightarrow> ctx \<Rightarrow> RemoteCmd option \<Rightarrow> host
    \<Rightarrow> error option \<times> RemoteCmd option \<times> host" where
  "Start c cx cmdp h =
     (case cmdp of
        None \<Rightarrow> (Some ErrNilCommand, None, h)
      | Some rc \<Rightarrow>
          if TrimSpace (Command rc) = [] then (None, Some (SetExited rc 0), h)
          else
            (case ctxErr cx of
               Some err \<Rightarrow> (Some err, Some rc, h)
             | None \<Rightarrow>
                 (let params = [vmName c, Username (config c), Password (config c), Command rc];
                      h1 = h\<lparr>streamCalls := streamCalls h @ [(executeCommandScript, params)]\<rparr>
                  in (case runner_Stream (runner c) executeCommandScript params of
                        Inl err \<Rightarrow> (Some err, Some rc, h1)
                      | Inr process \<Rightarrow>
                          (None,
                           Some (consumeMessages (procStdout process) rc),
                           h1\<lparr>waits := waits h1 + 1,
                              kills := kills h1 + (if doneLater cx then 1 else 0),
                              rawStderr := rawStderr h1 @ rawPump (procStderr process) rc\<rparr>)))))"

section \<open>Directory transfer\<close>

text \<open>What the file system and the \<open>wsl\<close> package answer.\<close>

record fs =
  Abs :: "string \<Rightarrow> error + string"                          \<comment> \<open>\<open>filepath.Abs\<close>\<close>
  IsWSL :: bool
  ConvertWSlPathToWindowsPath :: "string \<Rightarrow> error + string"
  mkdirAll :: "string \<Rightarrow> error option"                       \<comment> \<open>\<open>os.MkdirAll(path, 0o755)\<close>\<close>

definition hostPath :: "fs \<Rightarrow> string \<Rightarrow> error + string" where
  "hostPath f path =
     (case Abs f path of
        Inl err \<Rightarrow> Inl err
      | Inr absolute \<Rightarrow>
          if IsWSL f then
            (case ConvertWSlPathToWindowsPath f absolute of
               Inl err \<Rightarrow> Inl err
             | Inr converted \<Rightarrow> Inr converted)
          else Inr absolute)"

definition includeSourceRoot :: "string \<Rightarrow> bool" where
  "includeSourceRoot path =
     (if path = [] then False
      else if HasSuffix path ''/'' \<or> HasSuffix path [CHR 0x5C] then False
      else True)"

definition FormatBool :: "bool \<Rightarrow> string" where
  "FormatBool b = (if b then ''true'' else ''false'')"

definition run :: "Communicator \<Rightarrow> script \<Rightarrow> string list \<Rightarrow> host \<Rightarrow> error option \<times> host" where
  \<comment> \<open>\<open>c.runner.Run(script, params...)\<close>\<close>
  "run c sc params h = (runner_Run (runner c) sc params, h\<lparr>runCalls := runCalls h @ [(sc, params)]\<rparr>)"

definition UploadDir :: "Communicator \<Rightarrow> fs \<Rightarrow> string \<Rightarrow> string \<Rightarrow> string list \<Rightarrow> host
    \<Rightarrow> error option \<times> host" where
  "UploadDir c f dst src exclude h =
     (if 0 < length exclude then (Some errUnsupportedExclude, h)
      else
        (let includeRoot = includeSourceRoot src
         in case hostPath f src of
              Inl err \<Rightarrow> (Some err, h)
            | Inr hp \<Rightarrow>
                run c uploadDirectoryScript
                  [vmName c, Username (config c), Password (config c), hp, dst,
                   FormatBool includeRoot] h))"

definition DownloadDir :: "Communicator \<Rightarrow> fs \<Rightarrow> string \<Rightarrow> string \<Rightarrow> string list \<Rightarrow> host
    \<Rightarrow> error option \<times> host" where
  "DownloadDir c f src dst exclude h =
     (if 0 < length exclude then (Some errUnsupportedExclude, h)
      else
        (let includeRoot = includeSourceRoot src
         in case Abs f dst of
              Inl err \<Rightarrow> (Some err, h)
            | Inr destPath \<Rightarrow>
                (let h1 = h\<lparr>fileOps := fileOps h @ [MkdirAll destPath]\<rparr>
                 in case mkdirAll f destPath of
                      Some err \<Rightarrow> (Some err, h1)
                    | None \<Rightarrow>
                        (case hostPath f destPath of
                           Inl err \<Rightarrow> (Some err, h1)
                         | Inr hp \<Rightarrow>
                             run c downloadDirectoryScript
                               [vmName c, Username (config c), Password (config c), src, hp,
                                FormatBool includeRoot] h1))))"

section \<open>The spawned process\<close>

text \<open>
  \<open>execStreamProcess\<close> with what it owns. Of \<open>exec.Cmd\<close> the model keeps whether the
  process was started (\<open>cmd.Process\<close> is not \<open>nil\<close>) and whether \<open>cmd.Wait\<close> has returned;
  of the operating system, the error with which the process exits and the error of
  killing a process that has not been waited for. Once \<open>cmd.Wait\<close> has returned, the
  process is finished and released: \<open>Process.Kill\<close> then fails with \<open>os.ErrProcessDone\<close>,
  and a second \<open>cmd.Wait\<close> fails as well. \<open>once\<close> is the \<open>sync.Once\<close>; \<open>cleanups\<close> counts
  the runs of the \<open>cleanup\<close> closure of \<open>saveStreamingScript\<close>, which removes the staged
  script unless debugging is on.
\<close>

record execStreamProcess =
  started :: bool
  waited :: bool
  exitErr :: "error option"
  killErr :: "error option"
  hasCleanup :: bool
  once :: bool
  cleanups :: nat
  debug :: bool
  scriptStaged :: bool
  removes :: nat

definition cleanup :: "execStreamProcess \<Rightarrow> execStreamProcess" where
  "cleanup p =
     (let p1 = p\<lparr>cleanups := cleanups p + 1\<rparr>
      in if debug p1 then p1 else p1\<lparr>scriptStaged := False, removes := removes p1 + 1\<rparr>)"

definition close :: "execStreamProcess \<Rightarrow> execStreamProcess" where
  "close p =
     (if once p then p
      else (let p1 = p\<lparr>once := True\<rparr> in if hasCleanup p1 then cleanup p1 else p1))"

definition cmdWait :: "execStreamProcess \<Rightarrow> error option \<times> execStreamProcess" where
  \<comment> \<open>\<open>p.cmd.Wait()\<close>\<close>
  "cmdWait p =
     (if \<not> started p then (Some ErrNotStarted, p)
      else if waited p then (Some ErrWaitAlreadyCalled, p)
      else (exitErr p, p\<lparr>waited := True\<rparr>))"

definition processKill :: "execStreamProcess \<Rightarrow> error option \<times> execStreamProcess" where
  \<comment> \<open>\<open>p.cmd.Process.Kill()\<close>\<close>
  "processKill p = (if waited p then (Some ErrProcessDone, p) else (killErr p, p))"

definition Wait :: "execStreamProcess \<Rightarrow> error option \<times> execStreamProcess" where
  "Wait p = (case cmdWait p of (err, p1) \<Rightarrow> (err, close p1))"

definition Kill :: "execStreamProcess \<Rightarrow> error option \<times> execStreamProcess" where
  "Kill p =
     (if \<not> started p then (None, p)
      else case processKill p of (err, p1) \<Rightarrow> (err, close p1))"

datatype call = CallWait | CallKill

fun calls :: "call list \<Rightarrow> execStreamProcess \<Rightarrow> execStreamProcess" where
  \<comment> \<open>a sequence of calls on one process, the returned errors dropped\<close>
  "calls [] p = p"
| "calls (CallWait # cs) p = calls cs (snd (Wait p))"
| "calls (CallKill # cs) p = calls cs (snd (Kill p))"

definition spawned :: "bool \<Rightarrow> error option \<Rightarrow> error option \<Rightarrow> execStreamProcess" where
  \<comment> \<open>the process \<open>powershellRunner.Stream\<close> returns after \<open>cmd.Start()\<close> succeeded\<close>
  "spawned dbg xerr kerr =
     \<lparr>started = True, waited = False, exitErr = xerr, killErr = kerr, hasCleanup = True,
      once = False, cleanups = 0, debug = dbg, scriptStaged = True, removes = 0\<rparr>"

section \<open>Fixtures of the tests\<close>

text \<open>
  The communicator of \<open>newTestCommunicator\<close>, a runner that answers every \<open>Stream\<close> call
  with one process and every \<open>Run\<close> call with success, a host on which nothing has
  happened yet, and the contexts of \<open>context.Background()\<close> and of a cancelled
  \<open>context.WithCancel\<close>.
\<close>

definition stubRunner :: "streamProcess \<Rightarrow> runner" where
  "stubRunner proc = \<lparr>runner_Run = (\<lambda>sc params. None), runner_Stream = (\<lambda>sc params. Inr proc)\<rparr>"

definition newTestCommunicator :: "runner \<Rightarrow> Communicator" where
  "newTestCommunicator r =
     \<lparr>vmName = ''test-vm'',
      config = \<lparr>VMName = ''test-vm'', Username = ''user'', Password = ''pass''\<rparr>,
      runner = r\<rparr>"

definition freshHost :: host where
  "freshHost = \<lparr>runCalls = [], streamCalls = [], fileOps = [], waits = 0, kills = 0, rawStderr = []\<rparr>"

definition Background :: ctx where
  "Background = \<lparr>state = Live, doneLater = False\<rparr>"

definition cancelled :: ctx where
  "cancelled = \<lparr>state = IsCanceled, doneLater = False\<rparr>"

definition hostFs :: fs where
  "hostFs = \<lparr>Abs = Inr, IsWSL = False, ConvertWSlPathToWindowsPath = Inr, mkdirAll = (\<lambda>path. None)\<rparr>"

definition remoteCmd :: "string \<Rightarrow> RemoteCmd" where
  \<comment> \<open>a command with both sinks set to empty buffers\<close>
  "remoteCmd text = \<lparr>Command = text, Stdout = Some [], Stderr = Some [], exited = []\<rparr>"

definition successLines :: string where
  \<comment> \<open>the structured stream of \<open>TestStartExecutionSuccess\<close>\<close>
  \<open>successLines =
     ''{"stream":"stdout","data":"'' @ EncodeToString (''hello'' @ [CR, LF]) @ ''"}'' @ [LF] @
     ''{"stream":"stderr","data":"'' @ EncodeToString (''there'' @ [CR, LF]) @ ''"}'' @ [LF] @
     ''{"stream":"exit","code":7}''\<close>

definition successProcess :: streamProcess where
  "successProcess = \<lparr>procStdout = Some (successLines, None), procStderr = Some ([], None)\<rparr>"

definition plainChar :: "char \<Rightarrow> bool" where
  \<comment> \<open>an ASCII character that is no white space\<close>
  "plainChar c = ((of_char c :: nat) < 0x80 \<and> \<not> isSpace1 c)"

section \<open>Evaluation\<close>

lemmas string_eval = TrimSpace_def TrimRightSpace_def isSpace1_def isSpace2_def isSpace3_def
  HasSuffix_def

lemmas base64_eval = decodeBase64_def DecodeString_def decodeMap_def encodeStd_def encode_def
  isNewline_def padding_def trailing_def quantum_def char_of_eq_iff

lemmas scanner_eval = Scanner_def dropCR_def maxTokenSize_def

lemmas json_eval = Unmarshal_def parseJSON_def start_def emit_def isJsonSpace_def isDigit_def
  isHex_def numChar_def validNumber_def step_def beginValue_def beginKey_def closeArray_def
  closeObject_def deliver_def maxNestingDepth_def setField_def ParseInt_def digitsVal_def

lemmas pump_eval = consumeMessages_def body_def toStdout_def toStderr_def SetExited_def
  commandFailureStatus_def exitEnvelope_def

section \<open>The pump, one token at a time\<close>

lemma body_no_exit:
  assumes "exitEnvelope text = None"
  shows "\<exists>p'. body text p = Continue p' \<and> exited (cmd p') = exited (cmd p) \<and>
           exitHandled p' = exitHandled p \<and> exitCode p' = exitCode p \<and> scanned p' = scanned p"
  using assms
  by (auto simp: body_def exitEnvelope_def Let_def toStdout_def toStderr_def
           split: sum.splits if_splits)

lemma body_exit:
  assumes "exitEnvelope text = Some code"
  shows "body text p =
           Return (p\<lparr>exitHandled := True, exitCode := code, cmd := SetExited (cmd p) code\<rparr>)"
proof -
  from assms obtain msg where t: "TrimSpace text \<noteq> []"
    and u: "Unmarshal (TrimSpace text) = Inr msg"
    and s: "Stream msg = ''exit''" and c: "Code msg = code"
    by (auto simp: exitEnvelope_def split: sum.splits if_splits)
  show ?thesis
    by (simp add: body_def Let_def t u s c)
qed

lemma loop_no_exit:
  assumes "\<forall>t \<in> set ts. exitEnvelope t = None"
  shows "\<exists>p'. loop ts p = Continue p' \<and> exited (cmd p') = exited (cmd p) \<and>
           exitHandled p' = exitHandled p \<and> exitCode p' = exitCode p \<and>
           scanned p' = scanned p + length ts"
  using assms
proof (induction ts arbitrary: p)
  case Nil
  then show ?case by simp
next
  case (Cons t ts)
  from Cons.prems have "exitEnvelope t = None" by simp
  from body_no_exit[OF this, of "p\<lparr>scanned := scanned p + 1\<rparr>"]
  obtain q where q: "body t (p\<lparr>scanned := scanned p + 1\<rparr>) = Continue q"
    "exited (cmd q) = exited (cmd p)" "exitHandled q = exitHandled p"
    "exitCode q = exitCode p" "scanned q = scanned p + 1"
    by auto
  from Cons.prems have "\<forall>t \<in> set ts. exitEnvelope t = None" by simp
  from Cons.IH[OF this, of q] q show ?case by auto
qed

lemma loop_append:
  "loop (xs @ ys) p = (case loop xs p of Continue p' \<Rightarrow> loop ys p' | Return p' \<Rightarrow> Return p')"
  by (induction xs arbitrary: p) (auto split: flow.splits)

lemma loop_exit_cons:
  assumes "exitEnvelope x = Some code"
  shows "loop (x # rest) p =
    Return (p\<lparr>scanned := scanned p + 1, exitHandled := True, exitCode := code,
              cmd := SetExited (cmd p) code\<rparr>)"
  by (simp add: body_exit[OF assms])

lemma loop_once:
  "(\<forall>p'. loop ts p = Continue p' \<longrightarrow>
       exited (cmd p') = exited (cmd p) \<and> exitHandled p' = exitHandled p \<and>
       exitCode p' = exitCode p) \<and>
   (\<forall>p'. loop ts p = Return p' \<longrightarrow> (\<exists>code. exited (cmd p') = exited (cmd p) @ [code]))"
proof (induction ts arbitrary: p)
  case Nil
  then show ?case by simp
next
  case (Cons t ts)
  let ?p = "p\<lparr>scanned := scanned p + 1\<rparr>"
  show ?case
  proof (cases "exitEnvelope t")
    case None
    from body_no_exit[OF this, of ?p] obtain q where q: "body t ?p = Continue q"
      "exited (cmd q) = exited (cmd p)" "exitHandled q = exitHandled p"
      "exitCode q = exitCode p"
      by auto
    with Cons.IH[of q] show ?thesis by simp
  next
    case (Some code)
    then show ?thesis by (simp add: body_exit SetExited_def)
  qed
qed

lemma consumeMessages_once: "\<exists>status. exited (consumeMessages r c) = exited c @ [status]"
proof (cases r)
  case None
  then show ?thesis by (simp add: consumeMessages_def SetExited_def)
next
  case (Some rd)
  let ?p0 = "\<lparr>cmd = c, exitHandled = False, exitCode = commandFailureStatus, scanned = 0\<rparr>"
  show ?thesis
  proof (cases "loop (fst (Scanner rd)) ?p0")
    case (Continue p)
    with loop_once[of "fst (Scanner rd)" ?p0]
    have "exited (cmd p) = exited c" "\<not> exitHandled p" by auto
    with Some Continue show ?thesis
      by (auto simp: consumeMessages_def SetExited_def toStderr_def Let_def split: option.splits)
  next
    case (Return p)
    with loop_once[of "fst (Scanner rd)" ?p0]
    obtain code where "exited (cmd p) = exited c @ [code]" by auto
    with Some Return show ?thesis by (simp add: consumeMessages_def)
  qed
qed

section \<open>White space\<close>

lemma HasSuffix_single: "HasSuffix s [c] \<longleftrightarrow> s \<noteq> [] \<and> last s = c"
  by (cases s rule: rev_cases) (simp_all add: HasSuffix_def)

lemma TrimLeftSpace_ascii: "\<forall>c \<in> set s. isSpace1 c \<Longrightarrow> TrimLeftSpace s = []"
  by (induction s rule: TrimLeftSpace.induct) simp_all

lemma whitespace_only_blank: "\<forall>c \<in> set s. isSpace1 c \<Longrightarrow> TrimSpace s = []"
  by (simp add: TrimSpace_def TrimRightSpace_def TrimLeftSpace_ascii)

lemma plain_not_space:
  assumes "plainChar a"
  shows "\<not> isSpace1 a" "\<not> isSpace2 a b" "\<not> isSpace3 a b c" "\<not> isSpace2 b a" "\<not> isSpace3 c b a"
proof -
  from assms have l: "(of_char a :: nat) < 0x80" and s: "\<not> isSpace1 a"
    by (simp_all add: plainChar_def)
  show "\<not> isSpace1 a" by (rule s)
  from l have n: "a \<noteq> CHR 0xC2" "a \<noteq> CHR 0xE1" "a \<noteq> CHR 0xE2" "a \<noteq> CHR 0xE3"
    "a \<noteq> CHR 0x85" "a \<noteq> CHR 0xA0" "a \<noteq> CHR 0x80" "a \<noteq> CHR 0xA8" "a \<noteq> CHR 0xA9"
    "a \<noteq> CHR 0xAF" "a \<noteq> CHR 0x9F"
    by auto
  from n show "\<not> isSpace2 a b" by (simp add: isSpace2_def)
  from n show "\<not> isSpace3 a b c" by (simp add: isSpace3_def)
  from n show "\<not> isSpace2 b a" by (simp add: isSpace2_def)
  from n l show "\<not> isSpace3 c b a" by (simp add: isSpace3_def)
qed

lemma TrimLeftSpace_plain: "plainChar a \<Longrightarrow> TrimLeftSpace (a # s) = a # s"
  by (cases "a # s" rule: TrimLeftSpace.cases) (simp_all add: plain_not_space)

lemma trimSpaceRev_plain: "plainChar a \<Longrightarrow> trimSpaceRev (a # s) = a # s"
  by (cases "a # s" rule: trimSpaceRev.cases) (simp_all add: plain_not_space)

lemma TrimSpace_plain:
  assumes "\<forall>c \<in> set s. plainChar c"
  shows "TrimSpace s = s"
proof (cases "s = []")
  case True
  then show ?thesis by (simp add: TrimSpace_def TrimRightSpace_def)
next
  case False
  then obtain a t where s: "s = a # t" by (cases s) auto
  from False obtain u z where r: "rev s = z # u" by (cases "rev s") auto
  then have "z \<in> set (rev s)" by simp
  with assms have z: "plainChar z" by simp
  from s assms have a: "plainChar a" by simp
  have 1: "TrimLeftSpace s = s" unfolding s by (rule TrimLeftSpace_plain) (rule a)
  have 2: "trimSpaceRev (rev s) = rev s" unfolding r by (rule trimSpaceRev_plain) (rule z)
  show ?thesis by (simp add: TrimSpace_def TrimRightSpace_def 1 2)
qed

section \<open>Base64: decoding what was encoded\<close>

lemma sextets:
  "(v::nat) div 262144 mod 64 * 262144 + v div 4096 mod 64 * 4096 + v div 64 mod 64 * 64 +
     v mod 64 = v mod 16777216"
proof -
  have a: "v mod (262144 * 64) = 262144 * (v div 262144 mod 64) + v mod 262144"
    by (rule mod_mult2_eq)
  have b: "v mod (4096 * 64) = 4096 * (v div 4096 mod 64) + v mod 4096"
    by (rule mod_mult2_eq)
  have c: "v mod (64 * 64) = 64 * (v div 64 mod 64) + v mod 64"
    by (rule mod_mult2_eq)
  from a b c show ?thesis by simp
qed

lemma byte0: "a < 256 \<Longrightarrow> b < 256 \<Longrightarrow> c < 256 \<Longrightarrow>
   (a * 65536 + b * 256 + c :: nat) div 65536 mod 256 = a"
  by simp

lemma byte1:
  assumes "b < 256" "c < 256"
  shows "(a * 65536 + b * 256 + c :: nat) div 256 mod 256 = b"
proof -
  have "a * 65536 + b * 256 + c = (a * 256 + b) * 256 + c" by simp
  then have "(a * 65536 + b * 256 + c) div 256 = a * 256 + b" using assms by simp
  then show ?thesis using assms by simp
qed

lemma byte2:
  assumes "c < 256"
  shows "(a * 65536 + b * 256 + c :: nat) mod 256 = c"
proof -
  have e: "a * 65536 + b * 256 + c = (a * 256 + b) * 256 + c" by simp
  have "((a * 256 + b) * 256 + c) mod 256 = c mod 256" by (rule mod_mult_self3)
  with assms show ?thesis by (simp only: e mod_less)
qed

lemma indexByte_nth: "distinct xs \<Longrightarrow> i < length xs \<Longrightarrow> indexByte xs (xs ! i) = Some i"
proof (induction xs arbitrary: i)
  case Nil
  then show ?case by simp
next
  case (Cons x xs)
  show ?case
  proof (cases i)
    case 0
    then show ?thesis by simp
  next
    case (Suc j)
    with Cons.prems have "j < length xs" "xs ! j \<in> set xs" "x \<notin> set xs" "distinct xs" by auto
    with Cons.IH[of j] Suc show ?thesis by auto
  qed
qed

lemma distinct_encodeStd: "distinct encodeStd"
  by (simp add: encodeStd_def)

lemma length_encodeStd: "length encodeStd = 64"
  by (simp add: encodeStd_def)

lemma decodeMap_encode: "i < 64 \<Longrightarrow> decodeMap (encode i) = Some i"
  by (simp add: decodeMap_def encode_def indexByte_nth distinct_encodeStd length_encodeStd)

lemma decodeMap_pad: "decodeMap (CHR ''='') = None"
  by (simp add: decodeMap_def encodeStd_def)

lemma of_char_less: "(of_char c :: nat) < 256"
  by (metis of_char_mod_256 mod_less_divisor zero_less_numeral)

lemma quantum_bytes:
  assumes v: "v = of_char a * 65536 + of_char b * 256 + of_char c"
  shows "quantum [v div 262144 mod 64, v div 4096 mod 64, v div 64 mod 64, v mod 64] = [a, b, c]"
proof -
  have "\<And>x y z. x < 256 \<Longrightarrow> y < 256 \<Longrightarrow> z < 256 \<Longrightarrow> x * 65536 + y * 256 + z < (16777216::nat)"
    by simp
  then have "of_char a * 65536 + of_char b * 256 + of_char c < (16777216::nat)"
    by (rule meta_mp) (rule of_char_less)+
  with v have less: "v < 16777216" by simp
  have s: "v div 262144 mod 64 * 262144 + v div 4096 mod 64 * 4096 +
           v div 64 mod 64 * 64 + v mod 64 = v"
    using sextets[of v] less by simp
  have b0: "v div 65536 mod 256 = of_char a"
    unfolding v by (rule byte0) (rule of_char_less)+
  have b1: "v div 256 mod 256 = of_char b"
    unfolding v by (rule byte1) (rule of_char_less)+
  have b2: "v mod 256 = of_char c"
    unfolding v by (rule byte2) (rule of_char_less)
  show ?thesis
    by (simp add: quantum_def s b0 b1 b2 del: char_of_mod_256)
qed

lemma quantum_pad:
  "quantum [x, y, z] = quantum [x, y, z, 0]" "quantum [x, y] = quantum [x, y, 0, 0]"
  by (simp_all add: quantum_def)

lemma quantum_two:
  assumes v: "v = of_char a * 65536 + of_char b * 256"
  shows "take (Suc (Suc 0)) (quantum [v div 262144 mod 64, v div 4096 mod 64, v div 64 mod 64])
           = [a, b]"
proof -
  have v': "v = of_char a * 65536 + of_char b * 256 + of_char (CHR 0x00)" using v by simp
  have "v = (of_char a * 1024 + of_char b * 4) * 64" using v by simp
  then have m: "v mod 64 = 0" by simp
  from quantum_bytes[OF v'] m show ?thesis by (simp add: quantum_pad)
qed

lemma quantum_one:
  assumes v: "v = of_char a * 65536"
  shows "take (Suc 0) (quantum [v div 262144 mod 64, v div 4096 mod 64]) = [a]"
proof -
  have v': "v = of_char a * 65536 + of_char (CHR 0x00) * 256 + of_char (CHR 0x00)"
    using v by simp
  have "v = (of_char a * 16) * 4096" using v by simp
  then have m: "v mod 4096 = 0" by simp
  have "v = (of_char a * 1024) * 64" using v by simp
  then have m1: "v mod 64 = 0" by simp
  have "v mod 4096 = 64 * (v div 64 mod 64) + v mod 64"
    using mod_mult2_eq[of v 64 64] by simp
  with m have m2: "v div 64 mod 64 = 0" by simp
  from quantum_bytes[OF v'] m1 m2 show ?thesis by (simp add: quantum_pad)
qed

lemma decode_EncodeToString: "decode (EncodeToString bs) si [] out = Inr (out @ bs)"
proof (induction bs arbitrary: si out rule: EncodeToString.induct)
  case (1 a b c src)
  define v where "v = (of_char a * 65536 + of_char b * 256 + of_char c :: nat)"
  have q: "quantum [v div 262144 mod 64, v div 4096 mod 64, v div 64 mod 64, v mod 64] = [a, b, c]"
    by (rule quantum_bytes) (rule v_def)
  have "decode (EncodeToString (a # b # c # src)) si [] out
      = decode (EncodeToString src) (Suc (Suc (Suc (Suc si)))) [] (out @ [a, b, c])"
    unfolding EncodeToString.simps Let_def v_def[symmetric]
    by (simp add: decodeMap_encode q)
  with "1.IH" show ?case by simp
next
  case (2 a b)
  define v where "v = (of_char a * 65536 + of_char b * 256 :: nat)"
  have q: "take (Suc (Suc 0)) (quantum [v div 262144 mod 64, v div 4096 mod 64, v div 64 mod 64])
             = [a, b]"
    by (rule quantum_two) (rule v_def)
  show ?case
    unfolding EncodeToString.simps Let_def v_def[symmetric]
    by (simp add: decodeMap_encode decodeMap_pad isNewline_def padding_def trailing_def q)
next
  case (3 a)
  define v where "v = (of_char a * 65536 :: nat)"
  have q: "take (Suc 0) (quantum [v div 262144 mod 64, v div 4096 mod 64]) = [a]"
    by (rule quantum_one) (rule v_def)
  show ?case
    unfolding EncodeToString.simps Let_def v_def[symmetric]
    by (simp add: decodeMap_encode decodeMap_pad isNewline_def padding_def trailing_def q)
next
  case 4
  show ?case by simp
qed

lemma encodeStd_plain: "\<forall>c \<in> set encodeStd. plainChar c"
  by (simp add: encodeStd_def plainChar_def isSpace1_def)

lemma encode_plain: "i < 64 \<Longrightarrow> plainChar (encode i)"
  using encodeStd_plain by (simp add: encode_def length_encodeStd)

lemma pad_plain: "plainChar (CHR ''='')"
  by (simp add: plainChar_def isSpace1_def)

lemma EncodeToString_plain: "\<forall>c \<in> set (EncodeToString bs). plainChar c"
proof (induction bs rule: EncodeToString.induct)
  case (1 a b c src)
  then show ?case unfolding EncodeToString.simps Let_def by (simp add: encode_plain)
next
  case (2 a b)
  then show ?case unfolding EncodeToString.simps Let_def by (simp add: encode_plain pad_plain)
next
  case (3 a)
  then show ?case unfolding EncodeToString.simps Let_def by (simp add: encode_plain pad_plain)
next
  case 4
  then show ?case by simp
qed

lemma EncodeToString_Nil: "EncodeToString bs = [] \<Longrightarrow> bs = []"
  by (cases bs rule: EncodeToString.cases) (simp_all add: Let_def)

lemma decodeBase64_EncodeToString: "decodeBase64 (EncodeToString bs) = Inr bs"
proof -
  have t: "TrimSpace (EncodeToString bs) = EncodeToString bs"
    by (rule TrimSpace_plain) (rule EncodeToString_plain)
  have d: "DecodeString (EncodeToString bs) = Inr bs"
    using decode_EncodeToString[of bs 0 "[]"] by (simp add: DecodeString_def)
  show ?thesis
  proof (cases "EncodeToString bs = []")
    case True
    with t have "TrimSpace (EncodeToString bs) = []" by simp
    with EncodeToString_Nil[OF True] show ?thesis by (simp add: decodeBase64_def)
  next
    case False
    then show ?thesis by (simp add: decodeBase64_def t d)
  qed
qed

section \<open>The spawned process: cleanup\<close>

lemma close_once:
  "once (close p) \<and> started (close p) = started p \<and> waited (close p) = waited p \<and>
   debug (close p) = debug p"
  by (simp add: close_def cleanup_def Let_def)

lemma close_done: "once p \<Longrightarrow> close p = p"
  by (simp add: close_def)

lemma Wait_started: "started (snd (Wait p)) = started p \<and> once (snd (Wait p))"
  by (simp add: Wait_def cmdWait_def close_once split: prod.splits if_splits)

lemma Kill_started: "started p \<Longrightarrow> started (snd (Kill p)) \<and> once (snd (Kill p))"
  by (simp add: Kill_def processKill_def close_once split: prod.splits if_splits)

lemma Wait_counts:
  "once p \<Longrightarrow> cleanups (snd (Wait p)) = cleanups p \<and> removes (snd (Wait p)) = removes p \<and>
     scriptStaged (snd (Wait p)) = scriptStaged p"
  by (simp add: Wait_def cmdWait_def close_def)

lemma Kill_counts:
  "once p \<Longrightarrow> cleanups (snd (Kill p)) = cleanups p \<and> removes (snd (Kill p)) = removes p \<and>
     scriptStaged (snd (Kill p)) = scriptStaged p"
  by (simp add: Kill_def processKill_def close_def)

lemma calls_counts:
  "once p \<Longrightarrow> started p \<Longrightarrow>
   cleanups (calls cs p) = cleanups p \<and> removes (calls cs p) = removes p \<and>
   scriptStaged (calls cs p) = scriptStaged p"
proof (induction cs arbitrary: p)
  case Nil
  then show ?case by simp
next
  case (Cons c cs)
  show ?case
  proof (cases c)
    case CallWait
    with Cons.IH[of "snd (Wait p)"] Cons.prems Wait_started[of p] Wait_counts[of p]
    show ?thesis by simp
  next
    case CallKill
    with Cons.IH[of "snd (Kill p)"] Cons.prems Kill_started[of p] Kill_counts[of p]
    show ?thesis by simp
  qed
qed

lemma first_call:
  "cleanups (snd (Wait (spawned dbg xe ke))) = 1 \<and>
   removes (snd (Wait (spawned dbg xe ke))) = (if dbg then 0 else 1) \<and>
   scriptStaged (snd (Wait (spawned dbg xe ke))) = dbg \<and>
   cleanups (snd (Kill (spawned dbg xe ke))) = 1 \<and>
   removes (snd (Kill (spawned dbg xe ke))) = (if dbg then 0 else 1) \<and>
   scriptStaged (snd (Kill (spawned dbg xe ke))) = dbg"
  by (simp add: spawned_def Wait_def Kill_def cmdWait_def processKill_def close_def cleanup_def
        Let_def)

lemma Wait_waited: "started p \<Longrightarrow> waited (snd (Wait p))"
  by (simp add: Wait_def cmdWait_def close_once)

lemma Kill_waited:
  "started p \<Longrightarrow> waited p \<Longrightarrow> once p \<Longrightarrow> Kill p = (Some ErrProcessDone, p)"
  by (simp add: Kill_def processKill_def close_def)

lemma Kill_after_Wait:
  "started p \<Longrightarrow> Kill (snd (Wait p)) = (Some ErrProcessDone, snd (Wait p))"
  by (rule Kill_waited) (simp_all add: Wait_started Wait_waited)

lemma Kill_Kill: "started p \<Longrightarrow> snd (Kill (snd (Kill p))) = snd (Kill p)"
  by (simp add: Kill_def processKill_def close_once close_done)

lemma Start_error_unresolved:
  assumes "Start c cx (Some rc) h = (Some err, Some rc', h')"
  shows "rc' = rc"
  using assms
  by (auto simp: Start_def Let_def split: if_splits option.splits sum.splits)

lemma Start_dispatched:
  assumes "TrimSpace (Command rc) \<noteq> []" and "ctxErr cx = None"
    and "runner_Stream (runner c) executeCommandScript
           [vmName c, Username (config c), Password (config c), Command rc] = Inr process"
  shows "Start c cx (Some rc) h =
     (None, Some (consumeMessages (procStdout process) rc),
      h\<lparr>streamCalls := streamCalls h @
           [(executeCommandScript, [vmName c, Username (config c), Password (config c), Command rc])],
        waits := waits h + 1,
        kills := kills h + (if doneLater cx then 1 else 0),
        rawStderr := rawStderr h @ rawPump (procStderr process) rc\<rparr>)"
  using assms by (simp add: Start_def Let_def)

section \<open>The claims\<close>

text \<open>
  C1, as the code has it. When \<open>Start\<close> returns no error for a command, the exit status
  of the command is set exactly once: \<open>SetExited\<close> is called once, whether the command
  is blank, or was dispatched and its structured stream gives an exit envelope or ends
  without one. A cancellation after the dispatch only kills the process and so ends the
  stream; whatever the stream then holds, the status is set once. When \<open>Start\<close> returns
  an error (the context was done before the dispatch, or the process could not be
  spawned), the command is left as it was and its exit status is not set. The streams are
  finite: the process's stdout is closed in the end.
\<close>

theorem Start_resolves_exactly_once:
  assumes "Start c cx (Some rc) h = (err, Some rc', h')"
  shows "(err = None \<longrightarrow> (\<exists>status. exited rc' = exited rc @ [status])) \<and>
         (err \<noteq> None \<longrightarrow> rc' = rc)"
proof (cases err)
  case None
  with assms consumeMessages_once[of _ rc] show ?thesis
    by (auto simp: Start_def SetExited_def Let_def split: if_splits option.splits sum.splits)
next
  case (Some e)
  with assms Start_error_unresolved[of c cx rc h e rc' h'] show ?thesis by simp
qed

theorem Start_resolves_exactly_once_witness:
  \<open>Start (newTestCommunicator (stubRunner
       \<lparr>procStdout = Some (''{"stream":"exit","code":7}'', None), procStderr = Some ([], None)\<rparr>))
     \<lparr>state = Live, doneLater = True\<rparr> (Some (remoteCmd ''noop'')) freshHost
   = (None, Some ((remoteCmd ''noop'')\<lparr>exited := [7]\<rparr>),
      freshHost\<lparr>streamCalls := [(executeCommandScript, [''test-vm'', ''user'', ''pass'', ''noop''])],
                waits := 1, kills := 1\<rparr>) \<and>
   (\<exists>status. exited ((remoteCmd ''noop'')\<lparr>exited := [7]\<rparr>) = exited (remoteCmd ''noop'') @ [status])\<close>
proof -
  have e: \<open>Start (newTestCommunicator (stubRunner
       \<lparr>procStdout = Some (''{"stream":"exit","code":7}'', None), procStderr = Some ([], None)\<rparr>))
     \<lparr>state = Live, doneLater = True\<rparr> (Some (remoteCmd ''noop'')) freshHost
   = (None, Some ((remoteCmd ''noop'')\<lparr>exited := [7]\<rparr>),
      freshHost\<lparr>streamCalls := [(executeCommandScript, [''test-vm'', ''user'', ''pass'', ''noop''])],
                waits := 1, kills := 1\<rparr>)\<close>
    by (simp add: Start_def newTestCommunicator_def stubRunner_def remoteCmd_def freshHost_def
          ctxErr_def rawPump_def string_eval scanner_eval json_eval pump_eval char_of_eq_iff)
  from Start_resolves_exactly_once[OF e] e show ?thesis by blast
qed

text \<open>
  C1 as stated fails on the cancellation path: with a context that is already cancelled,
  \<open>Start\<close> returns \<open>context.Canceled\<close> for a command that is neither \<open>nil\<close> nor blank and
  never sets its exit status.
\<close>

theorem Start_cancelled_never_resolves:
  "fst (Start (newTestCommunicator (stubRunner successProcess)) cancelled
          (Some (remoteCmd ''Write-Output hello'')) freshHost) = Some Canceled \<and>
   map_option exited
     (fst (snd (Start (newTestCommunicator (stubRunner successProcess)) cancelled
                  (Some (remoteCmd ''Write-Output hello'')) freshHost))) = Some []"
  by (simp add: Start_def remoteCmd_def cancelled_def ctxErr_def string_eval)

text \<open>
  C2. The three lines of the success test: a stdout envelope carrying the base64 of
  \<open>hello\r\n\<close>, a stderr envelope carrying the base64 of \<open>there\r\n\<close> and an exit
  envelope with code 7. The pump writes exactly these bytes to the two sinks, line
  terminators included, and sets the exit status 7.
\<close>

theorem three_line_stream:
  \<open>consumeMessages
     (Some (''{"stream":"stdout","data":"'' @ EncodeToString (''hello'' @ [CR, LF]) @ ''"}'' @ [LF] @
            ''{"stream":"stderr","data":"'' @ EncodeToString (''there'' @ [CR, LF]) @ ''"}'' @ [LF] @
            ''{"stream":"exit","code":7}'', None))
     (remoteCmd ''Write-Output hello'')
   = \<lparr>Command = ''Write-Output hello'', Stdout = Some [Write (''hello'' @ [CR, LF])],
      Stderr = Some [Write (''there'' @ [CR, LF])], exited = [7]\<rparr>\<close>
proof -
  have e1: "EncodeToString (''hello'' @ [CR, LF]) = ''aGVsbG8NCg==''"
    by (simp add: base64_eval)
  have e2: "EncodeToString (''there'' @ [CR, LF]) = ''dGhlcmUNCg==''"
    by (simp add: base64_eval)
  show ?thesis
    unfolding e1 e2
    by (simp add: remoteCmd_def string_eval base64_eval scanner_eval json_eval pump_eval)
qed

theorem three_line_stream_witness:
  "Start (newTestCommunicator (stubRunner successProcess)) Background
     (Some (remoteCmd ''Write-Output hello'')) freshHost
   = (None,
      Some \<lparr>Command = ''Write-Output hello'', Stdout = Some [Write (''hello'' @ [CR, LF])],
            Stderr = Some [Write (''there'' @ [CR, LF])], exited = [7]\<rparr>,
      freshHost\<lparr>streamCalls :=
                  [(executeCommandScript, [''test-vm'', ''user'', ''pass'', ''Write-Output hello''])],
                waits := 1\<rparr>)"
proof -
  have t: "TrimSpace (Command (remoteCmd ''Write-Output hello'')) \<noteq> []"
    by (simp add: remoteCmd_def string_eval)
  have b: "ctxErr Background = None"
    by (simp add: Background_def ctxErr_def)
  have r: "runner_Stream (runner (newTestCommunicator (stubRunner successProcess)))
             executeCommandScript
             [vmName (newTestCommunicator (stubRunner successProcess)),
              Username (config (newTestCommunicator (stubRunner successProcess))),
              Password (config (newTestCommunicator (stubRunner successProcess))),
              Command (remoteCmd ''Write-Output hello'')] = Inr successProcess"
    by (simp add: newTestCommunicator_def stubRunner_def)
  have c: "consumeMessages (procStdout successProcess) (remoteCmd ''Write-Output hello'')
      = \<lparr>Command = ''Write-Output hello'', Stdout = Some [Write (''hello'' @ [CR, LF])],
         Stderr = Some [Write (''there'' @ [CR, LF])], exited = [7]\<rparr>"
    unfolding successProcess_def streamProcess.simps successLines_def by (rule three_line_stream)
  have p: "rawPump (procStderr successProcess) (remoteCmd ''Write-Output hello'') = []"
    by (simp add: successProcess_def rawPump_def remoteCmd_def)
  show ?thesis
    unfolding Start_dispatched[OF t b r] c p
    by (simp add: newTestCommunicator_def freshHost_def Background_def remoteCmd_def)
qed

text \<open>
  C3. A structured stream that ends without an exit envelope, whatever else its lines
  hold (blank lines, malformed lines, stdout and stderr envelopes, a read error at the
  end, a line too long for the scanner), and a \<open>nil\<close> stream as well, set the exit status
  to \<open>commandFailureStatus\<close>, which is 1.
\<close>

theorem stream_without_exit_resolves_failure:
  assumes "\<forall>t \<in> set (fst (Scanner r)). exitEnvelope t = None"
  shows "exited (consumeMessages (Some r) c) = exited c @ [commandFailureStatus] \<and>
         exited (consumeMessages None c) = exited c @ [commandFailureStatus] \<and>
         commandFailureStatus = 1"
proof -
  let ?p0 = "\<lparr>cmd = c, exitHandled = False, exitCode = commandFailureStatus, scanned = 0\<rparr>"
  from loop_no_exit[OF assms, of ?p0] obtain p where
    p: "loop (fst (Scanner r)) ?p0 = Continue p" "exited (cmd p) = exited c"
       "\<not> exitHandled p" "exitCode p = commandFailureStatus"
    by auto
  then have "exited (consumeMessages (Some r) c) = exited c @ [commandFailureStatus]"
    by (auto simp: consumeMessages_def SetExited_def toStderr_def Let_def split: option.splits)
  then show ?thesis
    by (simp add: consumeMessages_def SetExited_def commandFailureStatus_def)
qed

theorem stream_without_exit_resolves_failure_witness:
  \<open>map exitEnvelope
      (fst (Scanner ([LF] @ ''oops'' @ [LF] @ ''{"stream":"stdout","data":"aGk="}'' @ [LF],
                     Some (OtherError ''closed''))))
      = [None, None, None] \<and>
    exited (consumeMessages
              (Some ([LF] @ ''oops'' @ [LF] @ ''{"stream":"stdout","data":"aGk="}'' @ [LF],
                     Some (OtherError ''closed'')))
              (remoteCmd ''noop'')) = [1]\<close>
proof -
  let ?r = \<open>([LF] @ ''oops'' @ [LF] @ ''{"stream":"stdout","data":"aGk="}'' @ [LF],
             Some (OtherError ''closed''))\<close>
  have m: "map exitEnvelope (fst (Scanner ?r)) = [None, None, None]"
    by (simp add: string_eval scanner_eval json_eval exitEnvelope_def char_of_eq_iff)
  have "\<forall>e \<in> set (map exitEnvelope (fst (Scanner ?r))). e = None"
    unfolding m by simp
  then have h: "\<forall>t \<in> set (fst (Scanner ?r)). exitEnvelope t = None"
    by simp
  from stream_without_exit_resolves_failure[OF h, of "remoteCmd ''noop''"] m show ?thesis
    by (simp add: remoteCmd_def)
qed

text \<open>
  C4. When the scanner delivers the tokens \<open>pre @ x # rest\<close>, with no exit envelope in
  \<open>pre\<close> and \<open>x\<close> an exit envelope of code \<open>code\<close>, the pump ends at \<open>x\<close>: it has taken
  \<open>length pre + 1\<close> tokens from the scanner, the command is as the tokens of \<open>pre\<close> left
  it with the exit status set to \<open>code\<close>, and nothing of \<open>rest\<close> is looked at, written or
  used to set a status.
\<close>

theorem exit_envelope_ends_pump:
  assumes "fst (Scanner r) = pre @ x # rest"
    and "\<forall>t \<in> set pre. exitEnvelope t = None"
    and "exitEnvelope x = Some code"
  shows "\<exists>p. loop pre \<lparr>cmd = c, exitHandled = False, exitCode = commandFailureStatus, scanned = 0\<rparr>
               = Continue p \<and>
             loop (fst (Scanner r))
                  \<lparr>cmd = c, exitHandled = False, exitCode = commandFailureStatus, scanned = 0\<rparr>
               = Return (p\<lparr>scanned := length pre + 1, exitHandled := True, exitCode := code,
                           cmd := SetExited (cmd p) code\<rparr>) \<and>
             consumeMessages (Some r) c = SetExited (cmd p) code \<and>
             exited (consumeMessages (Some r) c) = exited c @ [code]"
proof -
  let ?p0 = "\<lparr>cmd = c, exitHandled = False, exitCode = commandFailureStatus, scanned = 0\<rparr>"
  from loop_no_exit[OF assms(2), of ?p0] obtain p where
    p: "loop pre ?p0 = Continue p" "exited (cmd p) = exited c" "scanned p = length pre"
    by auto
  have l: "loop (fst (Scanner r)) ?p0 =
      Return (p\<lparr>scanned := length pre + 1, exitHandled := True, exitCode := code,
                cmd := SetExited (cmd p) code\<rparr>)"
    by (simp add: assms(1) loop_append p loop_exit_cons[OF assms(3)] del: loop.simps)
  then have "consumeMessages (Some r) c = SetExited (cmd p) code"
    by (simp add: consumeMessages_def)
  with p l show ?thesis by (simp add: SetExited_def)
qed

theorem exit_envelope_ends_pump_witness:
  \<open>fst (Scanner (''{"stream":"stdout","data":"aGk="}'' @ [LF] @ ''{"stream":"exit","code":7}'' @ [LF] @
                 ''{"stream":"stdout","data":"aGk="}'' @ [LF] @ ''{"stream":"exit","code":9}'', None))
     = [''{"stream":"stdout","data":"aGk="}''] @ ''{"stream":"exit","code":7}'' #
       [''{"stream":"stdout","data":"aGk="}'', ''{"stream":"exit","code":9}''] \<and>
   exitEnvelope ''{"stream":"stdout","data":"aGk="}'' = None \<and>
   exitEnvelope ''{"stream":"exit","code":7}'' = Some 7 \<and>
   consumeMessages
     (Some (''{"stream":"stdout","data":"aGk="}'' @ [LF] @ ''{"stream":"exit","code":7}'' @ [LF] @
            ''{"stream":"stdout","data":"aGk="}'' @ [LF] @ ''{"stream":"exit","code":9}'', None))
     (remoteCmd ''noop'')
   = \<lparr>Command = ''noop'', Stdout = Some [Write ''hi''], Stderr = Some [], exited = [7]\<rparr>\<close>
proof -
  let ?r = \<open>(''{"stream":"stdout","data":"aGk="}'' @ [LF] @ ''{"stream":"exit","code":7}'' @ [LF] @
            ''{"stream":"stdout","data":"aGk="}'' @ [LF] @ ''{"stream":"exit","code":9}'', None)\<close>
  have a: \<open>fst (Scanner ?r)
     = [''{"stream":"stdout","data":"aGk="}''] @ ''{"stream":"exit","code":7}'' #
       [''{"stream":"stdout","data":"aGk="}'', ''{"stream":"exit","code":9}'']\<close>
    by (simp add: scanner_eval)
  have b: \<open>\<forall>t \<in> set [''{"stream":"stdout","data":"aGk="}'']. exitEnvelope t = None\<close>
    by (simp add: string_eval json_eval exitEnvelope_def char_of_eq_iff)
  have c: \<open>exitEnvelope ''{"stream":"exit","code":7}'' = Some 7\<close>
    by (simp add: string_eval json_eval exitEnvelope_def char_of_eq_iff)
  have d: \<open>loop [''{"stream":"stdout","data":"aGk="}'']
            \<lparr>cmd = remoteCmd ''noop'', exitHandled = False, exitCode = commandFailureStatus, scanned = 0\<rparr>
          = Continue \<lparr>cmd = \<lparr>Command = ''noop'', Stdout = Some [Write ''hi''], Stderr = Some [], exited = []\<rparr>,
                      exitHandled = False, exitCode = commandFailureStatus, scanned = 1\<rparr>\<close>
    by (simp add: remoteCmd_def string_eval base64_eval json_eval body_def toStdout_def)
  from exit_envelope_ends_pump[OF a b c, of "remoteCmd ''noop''"] d
  have \<open>consumeMessages (Some ?r) (remoteCmd ''noop'')
     = \<lparr>Command = ''noop'', Stdout = Some [Write ''hi''], Stderr = Some [], exited = [7]\<rparr>\<close>
    by (auto simp: SetExited_def)
  with a b c show ?thesis by simp
qed


text \<open>
  C5. With a command that is neither \<open>nil\<close> nor blank and a context that is already
  done when \<open>Start\<close> polls it, \<open>Start\<close> returns the context's error, which is
  \<open>context.Canceled\<close> or \<open>context.DeadlineExceeded\<close>, and leaves the host as it was:
  no \<open>Stream\<close> call, no \<open>Run\<close> call, no process. The command is left as it was, too.
\<close>

theorem cancelled_before_dispatch:
  assumes "TrimSpace (Command rc) \<noteq> []" and "state cx \<noteq> Live"
  shows "Start c cx (Some rc) h = (ctxErr cx, Some rc, h) \<and>
         (ctxErr cx = Some Canceled \<or> ctxErr cx = Some DeadlineExceeded)"
  using assms by (cases "state cx") (simp_all add: Start_def ctxErr_def)

theorem cancelled_before_dispatch_witness:
  "TrimSpace (Command (remoteCmd ''noop'')) \<noteq> [] \<and> state cancelled \<noteq> Live \<and>
   Start (newTestCommunicator (stubRunner successProcess)) cancelled (Some (remoteCmd ''noop'')) freshHost
     = (Some Canceled, Some (remoteCmd ''noop''), freshHost) \<and>
   streamCalls freshHost = [] \<and> runCalls freshHost = []"
proof -
  have t: "TrimSpace (Command (remoteCmd ''noop'')) \<noteq> []"
    by (simp add: remoteCmd_def string_eval)
  have s: "state cancelled \<noteq> Live"
    by (simp add: cancelled_def)
  from cancelled_before_dispatch[OF t s, of "newTestCommunicator (stubRunner successProcess)" freshHost]
    t s
  show ?thesis by (simp add: cancelled_def ctxErr_def freshHost_def)
qed

text \<open>
  C6. A command whose text is blank (\<open>strings.TrimSpace\<close> leaves nothing of it: the
  empty text, or white space only) has its exit status set to 0 at once; \<open>Start\<close> returns
  no error and leaves the host as it was: no call of the runner. This holds whatever the
  context is.
\<close>

theorem blank_command_succeeds:
  assumes "TrimSpace (Command rc) = []"
  shows "Start c cx (Some rc) h = (None, Some (SetExited rc 0), h) \<and>
         exited (SetExited rc 0) = exited rc @ [0]"
  using assms by (simp add: Start_def SetExited_def)

theorem blank_command_succeeds_witness:
  "TrimSpace (Command (remoteCmd ''   '')) = [] \<and>
   Start (newTestCommunicator (stubRunner successProcess)) cancelled (Some (remoteCmd ''   '')) freshHost
     = (None, Some ((remoteCmd ''   '')\<lparr>exited := [0]\<rparr>), freshHost)"
proof -
  have "\<forall>c \<in> set ''   ''. isSpace1 c" by (simp add: isSpace1_def)
  then have t: "TrimSpace (Command (remoteCmd ''   '')) = []"
    by (simp add: remoteCmd_def whitespace_only_blank)
  from blank_command_succeeds[OF t, of "newTestCommunicator (stubRunner successProcess)" cancelled freshHost]
    t
  show ?thesis by (simp add: SetExited_def remoteCmd_def)
qed

text \<open>
  C7. With an exclude list that is not empty, \<open>UploadDir\<close> and \<open>DownloadDir\<close> both return
  \<open>errUnsupportedExclude\<close> and leave the host as it was: no call of the runner, no
  directory made, nothing done to the file system.
\<close>

theorem exclude_list_rejected:
  assumes "exclude \<noteq> []"
  shows "UploadDir c f dst src exclude h = (Some errUnsupportedExclude, h) \<and>
         DownloadDir c f src dst exclude h = (Some errUnsupportedExclude, h)"
  using assms by (simp add: UploadDir_def DownloadDir_def)

theorem exclude_list_rejected_witness:
  "[''*.tmp''] \<noteq> [] \<and>
   UploadDir (newTestCommunicator (stubRunner successProcess)) hostFs ''/remote'' ''/local''
      [''*.tmp''] freshHost = (Some errUnsupportedExclude, freshHost) \<and>
   DownloadDir (newTestCommunicator (stubRunner successProcess)) hostFs ''/remote'' ''/local''
      [''*.tmp''] freshHost = (Some errUnsupportedExclude, freshHost) \<and>
   runCalls freshHost = [] \<and> fileOps freshHost = []"
  using exclude_list_rejected[of "[''*.tmp'']" "newTestCommunicator (stubRunner successProcess)"
      hostFs "''/remote''" "''/local''" freshHost]
    exclude_list_rejected[of "[''*.tmp'']" "newTestCommunicator (stubRunner successProcess)"
      hostFs "''/local''" "''/remote''" freshHost]
  by (simp add: freshHost_def)

text \<open>
  C8. \<open>includeSourceRoot\<close> is false for the empty path and for every path that ends in a
  slash or in a backslash, and true for every other path: \<open>C:/dir\<close> gives true,
  \<open>C:/dir/\<close> and \<open>/tmp/dir/\<close> give false.
\<close>

theorem includeSourceRoot_trailing_separator:
  "\<not> includeSourceRoot [] \<and>
   \<not> includeSourceRoot (dir @ ''/'') \<and>
   \<not> includeSourceRoot (dir @ [BS]) \<and>
   (path \<noteq> [] \<and> last path \<noteq> CHR ''/'' \<and> last path \<noteq> BS \<longrightarrow> includeSourceRoot path) \<and>
   includeSourceRoot ''C:/dir'' \<and> \<not> includeSourceRoot ''C:/dir/'' \<and>
   \<not> includeSourceRoot ''/tmp/dir/''"
  by (simp add: includeSourceRoot_def HasSuffix_single)

theorem includeSourceRoot_trailing_separator_witness:
  "''C:/dir'' \<noteq> [] \<and> last ''C:/dir'' \<noteq> CHR ''/'' \<and> last ''C:/dir'' \<noteq> BS \<and>
   includeSourceRoot ''C:/dir'' \<and> \<not> includeSourceRoot (''C:/dir'' @ ''/'') \<and>
   \<not> includeSourceRoot (''C:'' @ [BS])"
  using includeSourceRoot_trailing_separator[of "''C:/dir''" "''C:/dir''"]
    includeSourceRoot_trailing_separator[of "''C:''" "''C:/dir''"]
  by simp

text \<open>
  C9, as the code has it. \<open>decodeBase64\<close> gives the empty payload and no error for the
  empty string and for every blank string; it gives back the bytes of every byte
  sequence from their base64 encoding; and for a string that is not blank and that the
  decoder of \<open>StdEncoding\<close> rejects it returns the decoder's error.
\<close>

theorem decodeBase64_blank_roundtrip_invalid:
  "decodeBase64 [] = Inr [] \<and>
   (TrimSpace s = [] \<longrightarrow> decodeBase64 s = Inr []) \<and>
   decodeBase64 (EncodeToString bs) = Inr bs \<and>
   (TrimSpace s \<noteq> [] \<and> DecodeString s = Inl err \<longrightarrow> decodeBase64 s = Inl err)"
proof -
  have "decodeBase64 [] = Inr []"
    by (simp add: decodeBase64_def TrimSpace_def TrimRightSpace_def)
  moreover have "TrimSpace s = [] \<longrightarrow> decodeBase64 s = Inr []"
    by (simp add: decodeBase64_def)
  moreover have "TrimSpace s \<noteq> [] \<and> DecodeString s = Inl err \<longrightarrow> decodeBase64 s = Inl err"
    by (simp add: decodeBase64_def)
  ultimately show ?thesis using decodeBase64_EncodeToString[of bs] by blast
qed

theorem decodeBase64_blank_roundtrip_invalid_witness:
  "TrimSpace ''not-base64'' \<noteq> [] \<and> DecodeString ''not-base64'' = Inl (CorruptInputError 3) \<and>
   decodeBase64 ''not-base64'' = Inl (CorruptInputError 3) \<and>
   EncodeToString ''hello'' = ''aGVsbG8='' \<and> decodeBase64 ''aGVsbG8='' = Inr ''hello''"
proof -
  have t: "TrimSpace ''not-base64'' \<noteq> []" by (simp add: string_eval)
  have d: "DecodeString ''not-base64'' = Inl (CorruptInputError 3)" by (simp add: base64_eval)
  have e: "EncodeToString ''hello'' = ''aGVsbG8=''" by (simp add: base64_eval)
  from decodeBase64_blank_roundtrip_invalid[of "''not-base64''" "''hello''" "CorruptInputError 3"]
    t d e
  show ?thesis by simp
qed

text \<open>
  C9 as stated fails: the string of one space is no valid base64, the decoder rejects it
  at its first byte, and \<open>decodeBase64\<close> returns the empty payload without an error.
\<close>

theorem decodeBase64_accepts_blank_invalid:
  "DecodeString '' '' = Inl (CorruptInputError 0) \<and> decodeBase64 '' '' = Inr []"
  by (simp add: string_eval base64_eval)

text \<open>
  C10, as the code has it. On a started process, \<open>Kill\<close> after \<open>Wait\<close> has returned
  comes back at once with the error of killing a finished process (\<open>os.ErrProcessDone\<close>),
  which \<open>Start\<close> drops, and changes nothing; a second \<open>Kill\<close> leaves the process as the
  first one left it; and after any sequence of calls of \<open>Wait\<close> and \<open>Kill\<close> that is not
  empty, on the process that \<open>Stream\<close> returns, the cleanup has run exactly once: the
  staged script has been removed once, or is kept when debugging is on.
\<close>

theorem Kill_after_Wait_cleanup_once:
  "(started p \<longrightarrow> Kill (snd (Wait p)) = (Some ErrProcessDone, snd (Wait p))) \<and>
   (started p \<longrightarrow> snd (Kill (snd (Kill p))) = snd (Kill p)) \<and>
   (cs \<noteq> [] \<longrightarrow> cleanups (calls cs (spawned dbg xe ke)) = 1 \<and>
                removes (calls cs (spawned dbg xe ke)) = (if dbg then 0 else 1) \<and>
                scriptStaged (calls cs (spawned dbg xe ke)) = dbg)"
proof -
  have c: "cs \<noteq> [] \<longrightarrow> cleanups (calls cs (spawned dbg xe ke)) = 1 \<and>
                removes (calls cs (spawned dbg xe ke)) = (if dbg then 0 else 1) \<and>
                scriptStaged (calls cs (spawned dbg xe ke)) = dbg"
  proof (cases cs)
    case Nil
    then show ?thesis by simp
  next
    case (Cons k ks)
    have s: "started (spawned dbg xe ke)" by (simp add: spawned_def)
    show ?thesis
    proof (cases k)
      case CallWait
      with Cons calls_counts[of "snd (Wait (spawned dbg xe ke))" ks]
        Wait_started[of "spawned dbg xe ke"] s first_call[of dbg xe ke]
      show ?thesis by simp
    next
      case CallKill
      with Cons calls_counts[of "snd (Kill (spawned dbg xe ke))" ks] Kill_started[OF s] s
        first_call[of dbg xe ke]
      show ?thesis by simp
    qed
  qed
  from Kill_after_Wait[of p] Kill_Kill[of p] c show ?thesis by blast
qed

theorem Kill_after_Wait_cleanup_once_witness:
  "started (spawned False None None) \<and> [CallWait, CallKill, CallKill, CallWait] \<noteq> [] \<and>
   Kill (snd (Wait (spawned False None None)))
     = (Some ErrProcessDone, snd (Wait (spawned False None None))) \<and>
   snd (Kill (snd (Kill (spawned False None None)))) = snd (Kill (spawned False None None)) \<and>
   cleanups (calls [CallWait, CallKill, CallKill, CallWait] (spawned False None None)) = 1 \<and>
   removes (calls [CallWait, CallKill, CallKill, CallWait] (spawned False None None))
     = (if False then 0 else 1) \<and>
   scriptStaged (calls [CallWait, CallKill, CallKill, CallWait] (spawned False None None)) = False"
proof -
  note t = Kill_after_Wait_cleanup_once[of "spawned False None None"
      "[CallWait, CallKill, CallKill, CallWait]" False None None]
  have s: "started (spawned False None None)" by (simp add: spawned_def)
  have n: "[CallWait, CallKill, CallKill, CallWait] \<noteq> []" by simp
  from t s n show ?thesis by blast
qed

text \<open>
  C10 as stated fails: on the process that \<open>Stream\<close> returns, \<open>Wait\<close> returns without
  an error and the \<open>Kill\<close> that follows returns one.
\<close>

theorem Kill_after_Wait_returns_error:
  "fst (Wait (spawned False None None)) = None \<and>
   fst (Kill (snd (Wait (spawned False None None)))) = Some ErrProcessDone"
  by (simp add: spawned_def Wait_def Kill_def cmdWait_def processKill_def close_def cleanup_def
        Let_def)

end
